theory Spec2Isabelle
  imports Complex_Main "HOL-Library.Char_ord" "HOL-Library.List_Lexorder" "HOL-Library.Sublist"
begin

section \<open>Python values and exceptions\<close>

text \<open>
  The values that \<^verbatim>\<open>json.load\<close> produces and \<^verbatim>\<open>json.dump\<close> accepts. A Python
  \<^verbatim>\<open>dict\<close> with string keys is an association list. \<^verbatim>\<open>int\<close> and \<^verbatim>\<open>float\<close> are
  one constructor, which holds the number's value: any integer for an \<^verbatim>\<open>int\<close>, the
  value of a finite double for a \<^verbatim>\<open>float\<close>. A float whose value is an integer is not
  told apart from the \<^verbatim>\<open>int\<close> of that value; the code only subtracts and compares
  numbers, and both give the same there. The floats without a value (\<^verbatim>\<open>nan\<close>,
  \<^verbatim>\<open>inf\<close>) are not represented. A string is a list of characters below code point
  256. \<^verbatim>\<open>None\<close> is \<open>JNull\<close>, and \<^verbatim>\<open>str()\<close> is \<open>JStr ''''\<close>.
\<close>

datatype json =
    JNull
  | JBool bool
  | JNum real
  | JStr string
  | JArr "json list"
  | JObj "(string \<times> json) list"

datatype error =
    TypeError
  | KeyError
  | AttributeError
  | ValueError
  | JSONDecodeError
  | FileNotFoundError
  | PermissionError
  | ConnectionError
  | HTTPError nat
  | OAuth2Error
  | RecursionError
  | OverflowError

text \<open>Truthiness of a value: \<^verbatim>\<open>bool(v)\<close>, \<^verbatim>\<open>if v\<close>, \<^verbatim>\<open>not v\<close>.\<close>

fun truthy :: "json \<Rightarrow> bool" where
  "truthy JNull = False"
| "truthy (JBool b) = b"
| "truthy (JNum n) = (n \<noteq> 0)"
| "truthy (JStr s) = (s \<noteq> [])"
| "truthy (JArr xs) = (xs \<noteq> [])"
| "truthy (JObj kvs) = (kvs \<noteq> [])"

text \<open>\<^verbatim>\<open>v[key]\<close> with a string key: only a dict holding the key answers.\<close>

fun subscript :: "json \<Rightarrow> string \<Rightarrow> error + json" where
  "subscript (JObj kvs) k = (case map_of kvs k of None \<Rightarrow> Inl KeyError | Some v \<Rightarrow> Inr v)"
| "subscript v k = Inl TypeError"

text \<open>\<^verbatim>\<open>v.get(key, default)\<close>: a method of dicts only.\<close>

fun dict_get :: "json \<Rightarrow> string \<Rightarrow> json \<Rightarrow> error + json" where
  "dict_get (JObj kvs) k d = (case map_of kvs k of None \<Rightarrow> Inr d | Some v \<Rightarrow> Inr v)"
| "dict_get v k d = Inl AttributeError"

text \<open>\<^verbatim>\<open>key in v\<close> for a string key.\<close>

fun contains :: "json \<Rightarrow> string \<Rightarrow> error + bool" where
  "contains (JObj kvs) k = Inr (k \<in> fst ` set kvs)"
| "contains (JStr s) k = Inr (sublist k s)"
| "contains (JArr xs) k = Inr (JStr k \<in> set xs)"
| "contains v k = Inl TypeError"

text \<open>\<^verbatim>\<open>{**d, **{k: v}}\<close> and \<^verbatim>\<open>d[k] = v\<close> on a dict with values of any type.\<close>

fun merge :: "('k \<times> 'v) list \<Rightarrow> 'k \<Rightarrow> 'v \<Rightarrow> ('k \<times> 'v) list" where
  "merge [] k v = [(k, v)]"
| "merge ((k', v') # kvs) k v = (if k' = k then (k, v) # kvs else (k', v') # merge kvs k v)"

text \<open>Numbers in arithmetic: \<^verbatim>\<open>bool\<close> is a subclass of \<^verbatim>\<open>int\<close>.\<close>

fun as_number :: "json \<Rightarrow> real option" where
  "as_number (JNum n) = Some n"
| "as_number (JBool b) = Some (if b then 1 else 0)"
| "as_number v = None"

text \<open>
  \<^verbatim>\<open>float(n)\<close> for an \<^verbatim>\<open>int\<close>, which Python applies to an \<^verbatim>\<open>int\<close> operand next
  to a \<^verbatim>\<open>float\<close> one. A double has a significand of 53 bits: an \<^verbatim>\<open>int\<close> of more
  bits is rounded to the nearest double, a tie going to the even significand, and one
  that would round to \<open>2 ^ 1024\<close> or beyond raises \<^verbatim>\<open>OverflowError\<close>.
\<close>

fun bit_length :: "nat \<Rightarrow> nat" where
  "bit_length n = (if n = 0 then 0 else Suc (bit_length (n div 2)))"

declare bit_length.simps [simp del]

definition int_to_float :: "int \<Rightarrow> error + real" where
  "int_to_float n =
     (let m = nat \<bar>n\<bar>
      in if 2 ^ 1024 - 2 ^ 970 \<le> m then Inl OverflowError
         else
           (let k = bit_length m - 53;
                q = m div 2 ^ k;
                r = m mod 2 ^ k;
                q' = (if 2 ^ k < 2 * r \<or> (2 * r = 2 ^ k \<and> odd q) then q + 1 else q)
            in Inr (of_int (sgn n * int (q' * 2 ^ k)))))"

text \<open>The same for a number of either type: a \<^verbatim>\<open>float\<close> is left as it is, and so is
  the \<^verbatim>\<open>int\<close> of a value that a double holds exactly.\<close>

definition to_float :: "real \<Rightarrow> error + real" where
  "to_float x = (if of_int \<lfloor>x\<rfloor> = x then int_to_float \<lfloor>x\<rfloor> else Inr x)"

text \<open>
  \<^verbatim>\<open>a - b\<close> with a \<^verbatim>\<open>float\<close> on the right: the left operand is converted, then the
  two doubles are subtracted. The difference of two doubles is rounded to a double as
  well; it is a multiple of the smallest positive double, so the rounded difference is
  zero, negative or positive as the exact one is, and the exact one stands for it
  here, where only its sign is read.
\<close>

definition py_sub :: "json \<Rightarrow> real \<Rightarrow> error + real" where
  "py_sub a b =
     (case as_number a of
        None \<Rightarrow> Inl TypeError
      | Some x \<Rightarrow> (case to_float x of Inl err \<Rightarrow> Inl err | Inr f \<Rightarrow> Inr (f - b)))"

text \<open>\<^verbatim>\<open>a <= s\<close> with a \<^verbatim>\<open>str\<close> on the right: strings compare by code point,
  every other JSON value raises \<^verbatim>\<open>TypeError\<close>.\<close>

fun le_str :: "json \<Rightarrow> string \<Rightarrow> error + bool" where
  "le_str (JStr a) s = Inr (a \<le> s)"
| "le_str v s = Inl TypeError"

text \<open>\<^verbatim>\<open>str(n)\<close> for an integer, and \<^verbatim>\<open>s.zfill(width)\<close>.\<close>

definition digit_char :: "nat \<Rightarrow> char" where
  "digit_char d = ''0123456789'' ! d"

fun str_nat :: "nat \<Rightarrow> string" where
  "str_nat n = (if n < 10 then [digit_char n] else str_nat (n div 10) @ [digit_char (n mod 10)])"

declare str_nat.simps [simp del]

definition str_int :: "int \<Rightarrow> string" where
  "str_int i = (if i < 0 then CHR ''-'' # str_nat (nat (- i)) else str_nat (nat i))"

definition zfill :: "nat \<Rightarrow> string \<Rightarrow> string" where
  "zfill width s =
     (case s of
        c # rest \<Rightarrow>
          if c = CHR ''+'' \<or> c = CHR ''-''
          then c # replicate (width - length s) (CHR ''0'') @ rest
          else replicate (width - length s) (CHR ''0'') @ s
      | [] \<Rightarrow> replicate width (CHR ''0''))"

text \<open>\<^verbatim>\<open>s.rstrip(chars)\<close>.\<close>

definition rstrip :: "string \<Rightarrow> string \<Rightarrow> string" where
  "rstrip chars s = rev (dropWhile (\<lambda>c. c \<in> set chars) (rev s))"

section \<open>URL joining (\<^verbatim>\<open>urllib.parse\<close>)\<close>

text \<open>
  \<^verbatim>\<open>urljoin\<close> of the standard library, as the code calls it, with \<^verbatim>\<open>urlsplit\<close>,
  \<^verbatim>\<open>urlparse\<close>, \<^verbatim>\<open>urlunsplit\<close> and \<^verbatim>\<open>urlunparse\<close> under it. \<^verbatim>\<open>urlsplit\<close> raises
  \<^verbatim>\<open>ValueError\<close> for a host in square brackets that is no IPv6 or IPvFuture
  address, and \<^verbatim>\<open>urlparse\<close> and \<^verbatim>\<open>urljoin\<close> pass that on.
\<close>

definition uses_relative :: "string list" where
  "uses_relative = ['''', ''ftp'', ''http'', ''gopher'', ''nntp'', ''imap'', ''wais'', ''file'',
     ''https'', ''shttp'', ''mms'', ''prospero'', ''rtsp'', ''rtsps'', ''rtspu'', ''sftp'',
     ''svn'', ''svn+ssh'', ''ws'', ''wss'']"

definition uses_netloc :: "string list" where
  "uses_netloc = ['''', ''ftp'', ''http'', ''gopher'', ''nntp'', ''telnet'', ''imap'', ''wais'',
     ''file'', ''mms'', ''https'', ''shttp'', ''snews'', ''prospero'', ''rtsp'', ''rtsps'',
     ''rtspu'', ''rsync'', ''svn'', ''svn+ssh'', ''sftp'', ''nfs'', ''git'', ''git+ssh'', ''ws'',
     ''wss'']"

definition uses_params :: "string list" where
  "uses_params = ['''', ''ftp'', ''hdl'', ''prospero'', ''http'', ''imap'', ''https'', ''shttp'',
     ''rtsp'', ''rtsps'', ''rtspu'', ''sip'', ''sips'', ''mms'', ''sftp'', ''tel'']"

definition scheme_chars :: string where
  "scheme_chars = ''abcdefghijklmnopqrstuvwxyzABCDEFGHIJKLMNOPQRSTUVWXYZ0123456789+-.''"

definition is_ascii_alpha :: "char \<Rightarrow> bool" where
  "is_ascii_alpha c = ((CHR ''a'' \<le> c \<and> c \<le> CHR ''z'') \<or> (CHR ''A'' \<le> c \<and> c \<le> CHR ''Z''))"

definition lower_char :: "char \<Rightarrow> char" where
  "lower_char c = (if CHR ''A'' \<le> c \<and> c \<le> CHR ''Z'' then char_of (of_char c + (32::nat)) else c)"

text \<open>\<^verbatim>\<open>s.split(c, 1)\<close> when \<^verbatim>\<open>c in s\<close>: the text before and after the first \<open>c\<close>.\<close>

definition split_first :: "char \<Rightarrow> string \<Rightarrow> string \<times> string" where
  "split_first c s = (takeWhile (\<lambda>x. x \<noteq> c) s, drop 1 (dropWhile (\<lambda>x. x \<noteq> c) s))"

text \<open>\<^verbatim>\<open>s.split(c)\<close>: every field between two \<open>c\<close>, the empty ones too.\<close>

fun split_all :: "char \<Rightarrow> string \<Rightarrow> string list" where
  "split_all c [] = [[]]"
| "split_all c (x # xs) =
     (if x = c then [] # split_all c xs
      else (case split_all c xs of
              [] \<Rightarrow> [[x]]
            | seg # segs \<Rightarrow> (x # seg) # segs))"

text \<open>\<^verbatim>\<open>c.join(segments)\<close>.\<close>

fun join :: "char \<Rightarrow> string list \<Rightarrow> string" where
  "join c [] = []"
| "join c [s] = s"
| "join c (s # t # ss) = s @ c # join c (t # ss)"

subsection \<open>Hosts in square brackets (\<^verbatim>\<open>ipaddress\<close>)\<close>

text \<open>
  What \<^verbatim>\<open>urlsplit\<close> asks of the module \<^verbatim>\<open>ipaddress\<close>: whether a text is an
  address. Each function below is true where the constructor or parser it is named
  after returns, and false where that raises \<^verbatim>\<open>AddressValueError\<close>; the number the
  address stands for is not computed.
\<close>

definition is_ascii_digit :: "char \<Rightarrow> bool" where
  "is_ascii_digit c = (CHR ''0'' \<le> c \<and> c \<le> CHR ''9'')"

definition is_hex_digit :: "char \<Rightarrow> bool" where
  "is_hex_digit c = List.member ''0123456789abcdefABCDEF'' c"

text \<open>\<^verbatim>\<open>int(s, 10)\<close> for a text of decimal digits.\<close>

definition decimal :: "string \<Rightarrow> nat" where
  "decimal s = foldl (\<lambda>n c. 10 * n + (of_char c - 48)) 0 s"

text \<open>\<^verbatim>\<open>_parse_octet\<close>: one to three decimal digits, no leading zero, at most 255.\<close>

definition parse_octet :: "string \<Rightarrow> bool" where
  "parse_octet octet_str =
     (if octet_str = [] then False
      else if \<not> list_all is_ascii_digit octet_str then False
      else if length octet_str > 3 then False
      else if octet_str \<noteq> ''0'' \<and> take 1 octet_str = ''0'' then False
      else decimal octet_str \<le> 255)"

text \<open>\<^verbatim>\<open>IPv4Address(s)\<close>: four octets between dots.\<close>

definition IPv4Address :: "string \<Rightarrow> bool" where
  "IPv4Address addr_str =
     (if List.member addr_str (CHR ''/'') then False
      else if addr_str = [] then False
      else length (split_all (CHR ''.'') addr_str) = 4
           \<and> list_all parse_octet (split_all (CHR ''.'') addr_str))"

text \<open>\<^verbatim>\<open>_parse_hextet\<close>: hexadecimal digits only and at most four of them; \<^verbatim>\<open>int\<close>
  then raises for the empty text.\<close>

definition parse_hextet :: "string \<Rightarrow> bool" where
  "parse_hextet hextet_str =
     (if \<not> list_all is_hex_digit hextet_str then False
      else if length hextet_str > 4 then False
      else hextet_str \<noteq> [])"

text \<open>
  \<^verbatim>\<open>_ip_int_from_string\<close> of IPv6: three to nine parts between colons, of which a last
  one with a dot is an IPv4 address that counts as two hextets (here \<open>0\<close> and \<open>0\<close>,
  whatever the address); at most one empty part inside, the \<open>::\<close>; a first or last
  part is empty only next to it; eight hextets without a \<open>::\<close> and at most seven with
  it.
\<close>

definition ip_int_from_string :: "string \<Rightarrow> bool" where
  "ip_int_from_string ip_str =
     (if ip_str = [] then False
      else
        (let parts0 = split_all (CHR '':'') ip_str
         in if length parts0 < 3 then False
            else if List.member (last parts0) (CHR ''.'') \<and> \<not> IPv4Address (last parts0) then False
            else
              (let parts = (if List.member (last parts0) (CHR ''.'')
                            then butlast parts0 @ [''0'', ''0''] else parts0);
                   n = length parts;
                   skips = filter (\<lambda>i. parts ! i = []) [1..<n - 1]
               in if n > 9 then False
                  else if length skips > 1 then False
                  else
                    (case skips of
                       skip_index # others \<Rightarrow>
                         (let parts_hi = (if hd parts = [] then skip_index - 1 else skip_index);
                              parts_lo = (if last parts = [] then n - skip_index - 1 - 1
                                          else n - skip_index - 1)
                          in if hd parts = [] \<and> parts_hi \<noteq> 0 then False
                             else if last parts = [] \<and> parts_lo \<noteq> 0 then False
                             else if 8 < parts_hi + parts_lo + 1 then False
                             else list_all parse_hextet (take parts_hi parts @ drop (n - parts_lo) parts))
                     | [] \<Rightarrow>
                         if n \<noteq> 8 then False
                         else if hd parts = [] then False
                         else if last parts = [] then False
                         else list_all parse_hextet parts))))"

text \<open>\<^verbatim>\<open>IPv6Address(s)\<close>: no slash; a scope id after the first \<open>%\<close>, when there is
  one, is not empty and holds no further \<open>%\<close>.\<close>

definition IPv6Address :: "string \<Rightarrow> bool" where
  "IPv6Address addr_str =
     (if List.member addr_str (CHR ''/'') then False
      else
        (let addr = takeWhile (\<lambda>c. c \<noteq> CHR ''%'') addr_str;
             scope_id = drop (length addr + 1) addr_str
         in if List.member addr_str (CHR ''%'') \<and> (scope_id = [] \<or> List.member scope_id (CHR ''%''))
            then False
            else ip_int_from_string addr))"

text \<open>
  \<^verbatim>\<open>_check_bracketed_host\<close>, true where it returns and false where it raises
  \<^verbatim>\<open>ValueError\<close>. A host that starts with \<open>v\<close> has to match
  \<^verbatim>\<open>\Av[a-fA-F0-9]+\..+\Z\<close>: hexadecimal digits up to the first dot, and after the
  dot at least one character and no line feed. Any other host goes to
  \<^verbatim>\<open>ipaddress.ip_address\<close>, which tries IPv4 first; an IPv4 address is refused in
  brackets, and what is neither raises.
\<close>

definition check_bracketed_host :: "string \<Rightarrow> bool" where
  "check_bracketed_host hostname =
     (if take 1 hostname = ''v''
      then (let version = takeWhile (\<lambda>c. c \<noteq> CHR ''.'') (drop 1 hostname);
                rest = dropWhile (\<lambda>c. c \<noteq> CHR ''.'') (drop 1 hostname)
            in version \<noteq> [] \<and> list_all is_hex_digit version \<and> length rest > 1
               \<and> \<not> List.member (drop 1 rest) (char_of (10::nat)))
      else if IPv4Address hostname then False
      else IPv6Address hostname)"

subsection \<open>Splitting and joining\<close>

definition splitnetloc :: "string \<Rightarrow> string \<times> string" where
  \<comment> \<open>\<^verbatim>\<open>_splitnetloc(url, 2)\<close>: the text after the two slashes up to the first of \<open>/?#\<close>.\<close>
  "splitnetloc url =
     (let rest = drop 2 url;
          is_delim = (\<lambda>c. c = CHR ''/'' \<or> c = CHR ''?'' \<or> c = CHR ''#'')
      in (takeWhile (\<lambda>c. \<not> is_delim c) rest, dropWhile (\<lambda>c. \<not> is_delim c) rest))"

text \<open>
  The two tests \<^verbatim>\<open>urlsplit\<close> makes on a network location: a bracket without its
  partner, and the text between the first \<open>[\<close> and the next \<open>]\<close> when both are
  there (\<^verbatim>\<open>netloc.partition('[')[2].partition(']')[0]\<close>). True where
  \<^verbatim>\<open>ValueError\<close> is raised.
\<close>

definition invalid_brackets :: "string \<Rightarrow> bool" where
  "invalid_brackets netloc =
     (if (List.member netloc (CHR ''['') \<and> \<not> List.member netloc (CHR '']''))
         \<or> (List.member netloc (CHR '']'') \<and> \<not> List.member netloc (CHR ''[''))
      then True
      else if List.member netloc (CHR ''['') \<and> List.member netloc (CHR '']'')
      then (let bracketed_host = takeWhile (\<lambda>c. c \<noteq> CHR '']'')
                                   (drop 1 (dropWhile (\<lambda>c. c \<noteq> CHR ''['') netloc))
            in \<not> check_bracketed_host bracketed_host)
      else False)"

text \<open>
  \<^verbatim>\<open>urlsplit\<close>. Its last test, \<^verbatim>\<open>_checknetloc\<close>, raises for a network location with
  a character whose compatibility decomposition holds one of \<open>/?#@:\<close>; no character
  below code point 256 has such a decomposition, so that test is passed by every
  string here and does not appear.
\<close>

definition urlsplit :: "string \<Rightarrow> string \<Rightarrow> error + (string \<times> string \<times> string \<times> string \<times> string)" where
  "urlsplit url0 scheme0 =
     (let url1 = filter (\<lambda>c. \<not> List.member [char_of (9::nat), char_of (10::nat), char_of (13::nat)] c)
                   (dropWhile (\<lambda>c. of_char c \<le> (32::nat)) url0);
          pre = takeWhile (\<lambda>c. c \<noteq> CHR '':'') url1;
          (scheme, url2) =
            (if List.member url1 (CHR '':'') \<and> pre \<noteq> [] \<and> list_all is_ascii_alpha (take 1 url1)
                \<and> list_all (\<lambda>c. List.member scheme_chars c) pre
             then (map lower_char pre, drop (length pre + 1) url1)
             else (scheme0, url1));
          (netloc, url3) = (if take 2 url2 = ''//'' then splitnetloc url2 else ('''', url2));
          (url4, fragment) = (if List.member url3 (CHR ''#'') then split_first (CHR ''#'') url3 else (url3, ''''));
          (url5, query) = (if List.member url4 (CHR ''?'') then split_first (CHR ''?'') url4 else (url4, ''''))
      in if take 2 url2 = ''//'' \<and> invalid_brackets netloc then Inl ValueError
         else Inr (scheme, netloc, url5, query, fragment))"

definition splitparams :: "string \<Rightarrow> string \<times> string" where
  \<comment> \<open>\<^verbatim>\<open>_splitparams\<close>: the parameters follow the first \<open>;\<close> of the last path segment.\<close>
  "splitparams url =
     (if List.member url (CHR ''/'')
      then (let last_seg = rev (takeWhile (\<lambda>c. c \<noteq> CHR ''/'') (rev url));
                front = take (length url - length last_seg) url
            in if List.member last_seg (CHR '';'')
               then (front @ fst (split_first (CHR '';'') last_seg), snd (split_first (CHR '';'') last_seg))
               else (url, ''''))
      else split_first (CHR '';'') url)"

definition urlparse :: "string \<Rightarrow> string \<Rightarrow> error + (string \<times> string \<times> string \<times> string \<times> string \<times> string)" where
  "urlparse url0 scheme0 =
     (case urlsplit url0 scheme0 of
        Inl err \<Rightarrow> Inl err
      | Inr (scheme, netloc, url, query, fragment) \<Rightarrow>
          (let (path, params) =
                 (if List.member uses_params scheme \<and> List.member url (CHR '';'')
                  then splitparams url else (url, ''''))
           in Inr (scheme, netloc, path, params, query, fragment)))"

definition urlunsplit :: "string \<times> string \<times> string \<times> string \<times> string \<Rightarrow> string" where
  "urlunsplit parts =
     (let (scheme, netloc, url, query, fragment) = parts;
          url1 = (if netloc \<noteq> [] \<or> (scheme \<noteq> [] \<and> List.member uses_netloc scheme) \<or> take 2 url = ''//''
                  then ''//'' @ netloc @ (if url \<noteq> [] \<and> take 1 url \<noteq> ''/'' then ''/'' @ url else url)
                  else url);
          url2 = (if scheme \<noteq> [] then scheme @ '':'' @ url1 else url1);
          url3 = (if query \<noteq> [] then url2 @ ''?'' @ query else url2)
      in if fragment \<noteq> [] then url3 @ ''#'' @ fragment else url3)"

definition urlunparse :: "string \<times> string \<times> string \<times> string \<times> string \<times> string \<Rightarrow> string" where
  "urlunparse parts =
     (let (scheme, netloc, url, params, query, fragment) = parts
      in urlunsplit (scheme, netloc, if params \<noteq> [] then url @ '';'' @ params else url, query, fragment))"

text \<open>The loop of \<^verbatim>\<open>urljoin\<close> over the path segments: \<open>..\<close> pops, \<open>.\<close> is skipped.\<close>

fun resolve_segments :: "string list \<Rightarrow> string list \<Rightarrow> string list" where
  "resolve_segments resolved [] = resolved"
| "resolve_segments resolved (seg # segs) =
     (if seg = ''..'' then resolve_segments (butlast resolved) segs
      else if seg = ''.'' then resolve_segments resolved segs
      else resolve_segments (resolved @ [seg]) segs)"

text \<open>\<^verbatim>\<open>urljoin\<close>: both URLs are parsed, the base first, before anything is joined.\<close>

definition urljoin :: "string \<Rightarrow> string \<Rightarrow> error + string" where
  "urljoin base url =
     (if base = [] then Inr url
      else if url = [] then Inr base
      else
        (case urlparse base '''' of
           Inl err \<Rightarrow> Inl err
         | Inr (bscheme, bnetloc, bpath, bparams, bquery, bfragment) \<Rightarrow>
             (case urlparse url bscheme of
                Inl err \<Rightarrow> Inl err
              | Inr (scheme, netloc, path, params, query, fragment) \<Rightarrow>
                  Inr (if \<not> (scheme = bscheme \<and> List.member uses_relative scheme) then url
                       else if List.member uses_netloc scheme \<and> netloc \<noteq> []
                       then urlunparse (scheme, netloc, path, params, query, fragment)
                       else
                         (let netloc1 = (if List.member uses_netloc scheme then bnetloc else netloc)
                          in if path = [] \<and> params = []
                             then urlunparse (scheme, netloc1, bpath, bparams,
                                              if query = [] then bquery else query, fragment)
                             else
                               (let base_parts0 = split_all (CHR ''/'') bpath;
                                    base_parts = (if last base_parts0 \<noteq> [] then butlast base_parts0
                                                  else base_parts0);
                                    segments =
                                      (if take 1 path = ''/'' then split_all (CHR ''/'') path
                                       else (let segs = base_parts @ split_all (CHR ''/'') path
                                             in take 1 segs @ filter (\<lambda>s. s \<noteq> []) (butlast (drop 1 segs))
                                                @ (if length segs > 1 then [last segs] else [])));
                                    resolved0 = resolve_segments [] segments;
                                    resolved = (if last segments = ''.'' \<or> last segments = ''..''
                                                then resolved0 @ [[]] else resolved0);
                                    joined = join (CHR ''/'') resolved
                                in urlunparse (scheme, netloc1, if joined = [] then ''/'' else joined,
                                               params, query, fragment)))))))"

section \<open>The request wrappers (\<^verbatim>\<open>_request_wrappers.py\<close>)\<close>

text \<open>
  What the wrappers read of their \<^verbatim>\<open>tesla_object\<close> argument: every class of the
  package has these two attributes.
\<close>

record tesla_object =
  base_url :: string
  headers :: "(string \<times> string) list"

text \<open>
  A call of \<^verbatim>\<open>requests.get\<close> or \<^verbatim>\<open>requests.post\<close> and what comes back. The remote
  server is a function from the request to a response or to the exception
  \<^verbatim>\<open>requests\<close> raises when no response arrives. \<open>json_body\<close> is what
  \<^verbatim>\<open>response.json()\<close> parses, \<open>None\<close> when the body is not JSON.
\<close>

record request =
  req_method :: string
  req_url :: string
  req_headers :: "(string \<times> string) list"
  req_params :: "(string \<times> json) list option"
  req_data :: "json option"

record response =
  status_code :: nat
  location :: "string option"
  json_body :: "json option"

type_synonym server = "request \<Rightarrow> error + response"

text \<open>
  Both wrappers return the value under the body's \<^verbatim>\<open>response\<close> key. The handler
  \<^verbatim>\<open>except HTTPError as err: raise err\<close> re-raises what it catches, so every exception
  leaves the wrapper as it was raised. The second component lists the requests sent:
  none when \<^verbatim>\<open>urljoin\<close> raises, since the URL is built first.
\<close>

definition get :: "server \<Rightarrow> 'a tesla_object_scheme \<Rightarrow> string \<Rightarrow> (string \<times> json) list option
    \<Rightarrow> (error + json) \<times> request list" where
  "get rget tesla_object endpoint params =
     (case urljoin (base_url tesla_object) endpoint of
        Inl err \<Rightarrow> (Inl err, [])
      | Inr url \<Rightarrow>
          (let req = \<lparr>req_method = ''GET'', req_url = url, req_headers = headers tesla_object,
                      req_params = params, req_data = None\<rparr>
           in (case rget req of
                 Inl err \<Rightarrow> Inl err
               | Inr response \<Rightarrow>
                   (case json_body response of
                      None \<Rightarrow> Inl JSONDecodeError
                    | Some body \<Rightarrow> subscript body ''response''),
               [req])))"

definition post :: "server \<Rightarrow> 'a tesla_object_scheme \<Rightarrow> string \<Rightarrow> (string \<times> json) list option
    \<Rightarrow> json option \<Rightarrow> (error + json) \<times> request list" where
  "post rpost tesla_object endpoint params data =
     (case urljoin (base_url tesla_object) endpoint of
        Inl err \<Rightarrow> (Inl err, [])
      | Inr url \<Rightarrow>
          (let req = \<lparr>req_method = ''POST'', req_url = url, req_headers = headers tesla_object,
                      req_params = params, req_data = data\<rparr>
           in (case rpost req of
                 Inl err \<Rightarrow> Inl err
               | Inr response \<Rightarrow>
                   (case json_body response of
                      None \<Rightarrow> Inl JSONDecodeError
                    | Some body \<Rightarrow> subscript body ''response''),
               [req])))"

section \<open>Vehicle commands (\<^verbatim>\<open>vehicle/command.py\<close>)\<close>

text \<open>
  \<^verbatim>\<open>random.randint(a, b)\<close> over one raw draw of the generator: \<open>a\<close> plus a number
  below \<open>b - a + 1\<close>.
\<close>

definition randint :: "int \<Rightarrow> int \<Rightarrow> nat \<Rightarrow> int" where
  "randint a b draw = a + int draw mod (b - a + 1)"

text \<open>
  The body of \<^verbatim>\<open>class Command\<close> runs once, when the module is imported. Python
  evaluates a parameter's default there, so the class holds the value
  \<^verbatim>\<open>randint(0, 1000)\<close> returned then as the default of \<^verbatim>\<open>valet_pin\<close>.
\<close>

record command_class =
  set_valet_mode_default_valet_pin :: int

definition Command_class_body :: "nat \<Rightarrow> command_class" where
  "Command_class_body draw = \<lparr>set_valet_mode_default_valet_pin = randint 0 1000 draw\<rparr>"

record command = tesla_object +
  valet_pin :: "string option"

definition Command :: "'a tesla_object_scheme \<Rightarrow> command" where
  "Command parent_class =
     \<lparr>base_url = base_url parent_class, headers = headers parent_class, valet_pin = None\<rparr>"

text \<open>
  \<^verbatim>\<open>set_valet_mode(on, valet_pin)\<close>; an argument left out is \<open>None\<close> here and takes
  the class's default. The result is what \<^verbatim>\<open>post\<close> returns, the object with its
  \<^verbatim>\<open>valet_pin\<close> set, and the requests sent.
\<close>

definition set_valet_mode :: "command_class \<Rightarrow> server \<Rightarrow> command \<Rightarrow> bool option \<Rightarrow> int option
    \<Rightarrow> (error + json) \<times> command \<times> request list" where
  "set_valet_mode cls rpost self on_arg valet_pin_arg =
     (let valet_pin_value =
            (case valet_pin_arg of None \<Rightarrow> set_valet_mode_default_valet_pin cls | Some p \<Rightarrow> p);
          pin = zfill 4 (str_int valet_pin_value);
          self1 = self\<lparr>valet_pin := Some pin\<rparr>;
          (result, sent) = post rpost self1 ''command/set_valet_mode'' (Some [(''password'', JStr pin)]) None
      in (result, self1, sent))"

section \<open>PKCE code verifier\<close>

text \<open>
  \<^verbatim>\<open>base64.urlsafe_b64encode\<close>: three bytes become four letters of the URL-safe
  alphabet, and a last group of one or two bytes is padded with \<open>=\<close>.
\<close>

definition urlsafe_alphabet :: string where
  "urlsafe_alphabet = ''ABCDEFGHIJKLMNOPQRSTUVWXYZabcdefghijklmnopqrstuvwxyz0123456789-_''"

definition b64_char :: "nat \<Rightarrow> char" where
  "b64_char i = urlsafe_alphabet ! i"

fun urlsafe_b64encode :: "string \<Rightarrow> string" where
  "urlsafe_b64encode (a # b # c # rest) =
     (let n = of_char a * 65536 + of_char b * 256 + of_char c :: nat
      in b64_char (n div 262144) # b64_char (n div 4096 mod 64) # b64_char (n div 64 mod 64)
         # b64_char (n mod 64) # urlsafe_b64encode rest)"
| "urlsafe_b64encode [a, b] =
     (let n = of_char a * 65536 + of_char b * 256 :: nat
      in [b64_char (n div 262144), b64_char (n div 4096 mod 64), b64_char (n div 64 mod 64), CHR ''=''])"
| "urlsafe_b64encode [a] =
     (let n = of_char a * 65536 :: nat
      in [b64_char (n div 262144), b64_char (n div 4096 mod 64), CHR ''='', CHR ''=''])"
| "urlsafe_b64encode [] = []"

text \<open>\<^verbatim>\<open>os.urandom(n)\<close>: the next \<open>n\<close> bytes of the system's entropy source.\<close>

definition urandom :: "(nat \<Rightarrow> char) \<Rightarrow> nat \<Rightarrow> string" where
  "urandom entropy n = map entropy [0..<n]"

definition new_code_verifier :: "(nat \<Rightarrow> char) \<Rightarrow> string" where
  "new_code_verifier entropy = rstrip ''='' (urlsafe_b64encode (urandom entropy 32))"

text \<open>The characters RFC 7636 section 4.1 allows in a code verifier.\<close>

definition pkce_unreserved :: string where
  "pkce_unreserved = ''ABCDEFGHIJKLMNOPQRSTUVWXYZabcdefghijklmnopqrstuvwxyz0123456789-._~''"

text \<open>
  Base64 with the URL-safe alphabet and no padding, as RFC 7636 defines the code
  challenge: the encoding the specification names, written without reference to the
  padded encoder above.
\<close>

fun base64url_nopad :: "string \<Rightarrow> string" where
  "base64url_nopad (a # b # c # rest) =
     (let n = of_char a * 65536 + of_char b * 256 + of_char c :: nat
      in b64_char (n div 262144) # b64_char (n div 4096 mod 64) # b64_char (n div 64 mod 64)
         # b64_char (n mod 64) # base64url_nopad rest)"
| "base64url_nopad [a, b] =
     (let n = of_char a * 65536 + of_char b * 256 :: nat
      in [b64_char (n div 262144), b64_char (n div 4096 mod 64), b64_char (n div 64 mod 64)])"
| "base64url_nopad [a] =
     (let n = of_char a * 65536 :: nat
      in [b64_char (n div 262144), b64_char (n div 4096 mod 64)])"
| "base64url_nopad [] = []"

section \<open>The session's surroundings\<close>

text \<open>
  What \<^verbatim>\<open>client.py\<close> takes from outside the repository, each as a function the
  session is run against: the clock, the entropy source, SHA-256, the builtin
  \<^verbatim>\<open>str\<close> on a JSON value, the default browser and the operator's keyboard, the
  three methods of \<^verbatim>\<open>OAuth2Session\<close> the class calls through \<^verbatim>\<open>super()\<close>, the
  session's own \<^verbatim>\<open>get\<close>, and the API server behind \<^verbatim>\<open>requests\<close>. The clock
  gives one reading for the whole of an operation, the value of the \<^verbatim>\<open>float\<close> that
  \<^verbatim>\<open>time()\<close> returns. The browser's answer only selects between a log line and a
  print, so the model does not read it.
\<close>

type_synonym kwargs = "(string \<times> json) list"

record env =
  time :: real
  entropy :: "nat \<Rightarrow> char"
  sha256 :: "string \<Rightarrow> string"
  py_str :: "json \<Rightarrow> string"
  browser_open :: "string \<Rightarrow> bool"
  input :: "string \<Rightarrow> string"
  super_authorization_url :: "string \<Rightarrow> kwargs \<Rightarrow> error + (string \<times> string)"
  super_fetch_token :: "string \<Rightarrow> kwargs \<Rightarrow> error + json"
  super_refresh_token :: "string \<Rightarrow> kwargs \<Rightarrow> json \<Rightarrow> error + json"
  session_get :: "string \<Rightarrow> error + response"
  requests_get :: server
  requests_post :: server

text \<open>
  The cache file on disk, as \<^verbatim>\<open>_load_cache\<close> and \<^verbatim>\<open>_dump_cache\<close> see it: whether
  \<^verbatim>\<open>cache_file.parent\<close> and the directory above it exist, and the file's text and
  permission bits when there is a file. A text is a JSON document or it is not. The
  process owns the file, so the owner's bits decide what it may do; \<open>create_mode\<close>
  is what a new file gets before \<^verbatim>\<open>chmod\<close>.
\<close>

datatype content = Json json | Garbage

record disk =
  parent_parent_exists :: bool
  parent_exists :: bool
  cache_file :: "(content \<times> nat) option"
  create_mode :: nat

definition S_IRUSR :: nat where "S_IRUSR = 256"
definition S_IWUSR :: nat where "S_IWUSR = 128"
definition S_IRGRP :: nat where "S_IRGRP = 32"

definition permits :: "nat \<Rightarrow> nat \<Rightarrow> bool" where
  "permits mode flag = (mode div flag mod 2 = 1)"

text \<open>Every call that leaves the process, in the order made.\<close>

datatype event =
    Built_authorization_url string kwargs
  | Session_get string
  | Opened_browser string
  | Asked_input string
  | Super_fetch_token string kwargs
  | Super_refresh_token string kwargs
  | Api_request request

section \<open>The client (\<^verbatim>\<open>client.py\<close>)\<close>

text \<open>
  The attributes of \<^verbatim>\<open>Client\<close> the methods read and write. \<open>access_token\<close> is the
  attribute of the OAuth client that \<^verbatim>\<open>OAuth2Session.authorized\<close> tests; the setter
  of \<^verbatim>\<open>token\<close> fills it. The disk and the trace of outside calls travel with the
  object, so a method returns the state it leaves behind also when it raises.
\<close>

record vehicle = tesla_object +
  data :: json
  Command_of :: command

record client = tesla_object +
  email :: string
  sso_base_url :: json
  token :: json
  access_token :: json
  code_verifier :: "string option"
  verify :: bool
  account :: "tesla_object option"
  vehicles :: "(json \<times> vehicle) list option"
  disk :: disk
  trace :: "event list"

definition Client :: "string \<Rightarrow> string \<Rightarrow> string \<Rightarrow> string \<Rightarrow> bool \<Rightarrow> disk \<Rightarrow> error + client" where
  "Client email_arg user_agent sso_base_url_arg app_user_agent verify_arg d =
     (if email_arg = [] then Inl ValueError
      else Inr \<lparr>base_url = ''https://owner-api.teslamotors.com/api/1/'',
                headers = [(''Content-Type'', ''application/json''), (''User-Agent'', user_agent),
                           (''X-Tesla-User-Agent'', app_user_agent)],
                email = email_arg, sso_base_url = JStr sso_base_url_arg, token = JStr [],
                access_token = JNull, code_verifier = None, verify = verify_arg,
                account = None, vehicles = None, disk = d, trace = []\<rparr>)"

text \<open>\<^verbatim>\<open>OAuth2Session.authorized\<close> is \<^verbatim>\<open>bool(self.access_token)\<close>.\<close>

definition authorized :: "client \<Rightarrow> bool" where
  "authorized self = truthy (access_token self)"

text \<open>
  The setter of \<^verbatim>\<open>OAuth2Session.token\<close> stores the value, then
  \<^verbatim>\<open>populate_token_attributes\<close> copies \<^verbatim>\<open>access_token\<close> out of it when the key is
  there; a value without the key leaves the attribute as it was.
\<close>

definition set_token :: "json \<Rightarrow> client \<Rightarrow> (error + unit) \<times> client" where
  "set_token v self =
     (let self1 = self\<lparr>token := v\<rparr>
      in (case contains v ''access_token'' of
            Inl err \<Rightarrow> (Inl err, self1)
          | Inr False \<Rightarrow> (Inr (), self1)
          | Inr True \<Rightarrow>
              (case dict_get v ''access_token'' JNull of
                 Inl err \<Rightarrow> (Inl err, self1)
               | Inr a \<Rightarrow> (Inr (), self1\<lparr>access_token := a\<rparr>))))"

definition expires_at :: "client \<Rightarrow> error + json" where
  "expires_at self = dict_get (token self) ''expires_at'' JNull"

definition expired :: "env \<Rightarrow> client \<Rightarrow> error + bool" where
  "expired e self =
     (case expires_at self of
        Inl err \<Rightarrow> Inl err
      | Inr stamp \<Rightarrow> (case py_sub stamp (time e) of Inl err \<Rightarrow> Inl err | Inr diff \<Rightarrow> Inr (diff \<le> 0)))"

text \<open>\<^verbatim>\<open>urljoin(self.sso_base_url, path)\<close>: a falsy base gives the path back, and a base
  that is no string raises \<^verbatim>\<open>TypeError\<close>.\<close>

definition urljoin_base :: "json \<Rightarrow> string \<Rightarrow> error + string" where
  "urljoin_base b url =
     (case b of JStr s \<Rightarrow> urljoin s url | _ \<Rightarrow> if truthy b then Inl TypeError else Inr url)"

subsection \<open>The cache file\<close>

text \<open>\<^verbatim>\<open>datetime.now().strftime('%s')\<close>: the epoch seconds in decimal.\<close>

definition strftime_s :: "real \<Rightarrow> string" where
  "strftime_s t = str_int \<lfloor>t\<rfloor>"

text \<open>\<^verbatim>\<open>load(open(self.cache_file))\<close>.\<close>

definition load_json :: "disk \<Rightarrow> error + json" where
  "load_json d =
     (case cache_file d of
        None \<Rightarrow> Inl FileNotFoundError
      | Some (text, mode) \<Rightarrow>
          if \<not> permits mode S_IRUSR then Inl PermissionError
          else (case text of Garbage \<Rightarrow> Inl JSONDecodeError | Json v \<Rightarrow> Inr v))"

text \<open>
  The \<^verbatim>\<open>try\<close> block of \<^verbatim>\<open>_load_cache\<close>. \<^verbatim>\<open>expired\<close> is a property without a
  setter, so the assignment \<^verbatim>\<open>self.expired = True\<close> raises \<^verbatim>\<open>AttributeError\<close>.
\<close>

definition load_cache_try :: "env \<Rightarrow> client \<Rightarrow> error + json" where
  "load_cache_try e self =
     (case load_json (disk self) of
        Inl err \<Rightarrow> Inl err
      | Inr cache \<Rightarrow>
          (case subscript cache (email self) of
             Inl err \<Rightarrow> Inl err
           | Inr entry \<Rightarrow>
               (case subscript entry ''sso'' of
                  Inl err \<Rightarrow> Inl err
                | Inr sso \<Rightarrow>
                    (case subscript sso ''expires_at'' of
                       Inl err \<Rightarrow> Inl err
                     | Inr stamp \<Rightarrow>
                         (case le_str stamp (strftime_s (time e)) of
                            Inl err \<Rightarrow> Inl err
                          | Inr True \<Rightarrow> Inl AttributeError
                          | Inr False \<Rightarrow> Inr cache)))))"

text \<open>
  \<^verbatim>\<open>_load_cache\<close>: the handler of \<^verbatim>\<open>BaseException\<close> makes the parent directory
  when it is missing and returns an empty dict. \<^verbatim>\<open>Path.mkdir()\<close> without
  \<^verbatim>\<open>parents=True\<close> raises \<^verbatim>\<open>FileNotFoundError\<close> when the directory above is
  missing, and no handler encloses that call.
\<close>

definition load_cache :: "env \<Rightarrow> client \<Rightarrow> (error + json) \<times> client" where
  "load_cache e self =
     (case load_cache_try e self of
        Inr cache \<Rightarrow> (Inr cache, self)
      | Inl err \<Rightarrow>
          if \<not> parent_exists (disk self)
          then (if parent_parent_exists (disk self)
                then (Inr (JObj []), self\<lparr>disk := (disk self)\<lparr>parent_exists := True\<rparr>\<rparr>)
                else (Inl FileNotFoundError, self))
          else (Inr (JObj []), self))"

text \<open>
  \<^verbatim>\<open>open(self.cache_file, 'w')\<close> creates the file or empties it; it raises when the
  directory is missing or the file may not be written.
\<close>

definition open_w :: "disk \<Rightarrow> error + disk" where
  "open_w d =
     (if \<not> parent_exists d then Inl FileNotFoundError
      else (case cache_file d of
              None \<Rightarrow> Inr (d\<lparr>cache_file := Some (Garbage, create_mode d)\<rparr>)
            | Some (text, mode) \<Rightarrow>
                if permits mode S_IWUSR then Inr (d\<lparr>cache_file := Some (Garbage, mode)\<rparr>)
                else Inl PermissionError))"

text \<open>
  \<^verbatim>\<open>_dump_cache\<close>: \<^verbatim>\<open>json.dump\<close> into the opened file, then \<^verbatim>\<open>chmod\<close>. Both
  exceptions of \<open>open_w\<close> are \<^verbatim>\<open>IOError\<close>s, which the method catches and logs.
\<close>

definition dump_cache :: "json \<Rightarrow> client \<Rightarrow> client" where
  "dump_cache cache self =
     (case open_w (disk self) of
        Inl err \<Rightarrow> self
      | Inr d1 \<Rightarrow>
          self\<lparr>disk := d1\<lparr>cache_file := Some (Json cache, or (or S_IWUSR S_IRUSR) S_IRGRP)\<rparr>\<rparr>)"

subsection \<open>The authorization URL\<close>

text \<open>
  \<^verbatim>\<open>Response.is_redirect\<close> and \<^verbatim>\<open>Response.ok\<close> of \<^verbatim>\<open>requests\<close>: a redirect has a
  \<^verbatim>\<open>Location\<close> header and one of five status codes; a response is ok unless its
  status is a 4xx or a 5xx.
\<close>

definition is_redirect :: "response \<Rightarrow> bool" where
  "is_redirect r = (location r \<noteq> None \<and> List.member [301, 302, 303, 307, 308] (status_code r))"

definition ok :: "response \<Rightarrow> bool" where
  "ok r = (\<not> (400 \<le> status_code r \<and> status_code r < 600))"

definition authorization_url :: "env \<Rightarrow> string \<Rightarrow> kwargs \<Rightarrow> client \<Rightarrow> (error + string option) \<times> client" where
  "authorization_url e auth_url_path kwargs self =
     (if authorized self then (Inr None, self)
      else
        (let verifier = new_code_verifier (entropy e);
             self1 = self\<lparr>code_verifier := Some verifier\<rparr>;
             kwargs1 = merge kwargs ''code_challenge''
                         (JStr (rstrip ''='' (urlsafe_b64encode (sha256 e verifier))));
             kwargs2 = merge kwargs1 ''code_challenge_method'' (JStr ''S256'')
         in (case urljoin_base (sso_base_url self1) auth_url_path of
               Inl err \<Rightarrow> (Inl err, self1)
             | Inr url \<Rightarrow>
                 (let self2 = self1\<lparr>trace := trace self1 @ [Built_authorization_url url kwargs2]\<rparr>
                  in (case super_authorization_url e url kwargs2 of
                        Inl err \<Rightarrow> (Inl err, self2)
                      | Inr (without_hint, state) \<Rightarrow>
                          (let kwargs3 = merge kwargs2 ''login_hint'' (JStr (email self2));
                               kwargs4 = merge kwargs3 ''state'' (JStr state);
                               self3 = self2\<lparr>trace := trace self2 @ [Built_authorization_url url kwargs4]\<rparr>
                           in (case super_authorization_url e url kwargs4 of
                                 Inl err \<Rightarrow> (Inl err, self3)
                               | Inr (with_hint, state') \<Rightarrow>
                                   (let self4 = self3\<lparr>trace := trace self3 @ [Session_get with_hint]\<rparr>
                                    in (case session_get e with_hint of
                                          Inl err \<Rightarrow> (Inl err, self4)
                                        | Inr response \<Rightarrow>
                                            (if is_redirect response
                                             then (case location response of
                                                     None \<Rightarrow> (Inl KeyError, self4)
                                                   | Some target \<Rightarrow>
                                                       (case urljoin target ''/'' of
                                                          Inl err \<Rightarrow> (Inl err, self4)
                                                        | Inr new_base \<Rightarrow>
                                                            (Inr (Some (if ok response then target
                                                                        else without_hint)),
                                                             self4\<lparr>sso_base_url := JStr new_base\<rparr>)))
                                             else (Inr (Some (if ok response then with_hint else without_hint)),
                                                   self4)))))))))))"

text \<open>\<^verbatim>\<open>_authenticate\<close>: the browser is asked to open the URL, then the operator
  types the URL the login ended on. What is printed is left out.\<close>

definition authenticate :: "env \<Rightarrow> string \<Rightarrow> client \<Rightarrow> string \<times> client" where
  "authenticate e url self =
     (input e ''Enter URL after authentication: '',
      self\<lparr>trace := trace self @ [Opened_browser url, Asked_input ''Enter URL after authentication: '']\<rparr>)"

subsection \<open>Token persistency and token exchange\<close>

text \<open>\<^verbatim>\<open>kwargs.setdefault(k, v)\<close>.\<close>

definition setdefault :: "kwargs \<Rightarrow> string \<Rightarrow> json \<Rightarrow> kwargs" where
  "setdefault kwargs k v = (if map_of kwargs k = None then kwargs @ [(k, v)] else kwargs)"

text \<open>\<^verbatim>\<open>kwargs.get(k)\<close>, \<^verbatim>\<open>None\<close> for a key that is not there.\<close>

definition kwargs_get :: "kwargs \<Rightarrow> string \<Rightarrow> json" where
  "kwargs_get kwargs k = (case map_of kwargs k of None \<Rightarrow> JNull | Some v \<Rightarrow> v)"

text \<open>The condition \<^verbatim>\<open>self.authorized and not self.expired\<close>; the right operand is
  evaluated, and may raise, only for an authorized session.\<close>

definition authorized_and_not_expired :: "env \<Rightarrow> client \<Rightarrow> error + bool" where
  "authorized_and_not_expired e self =
     (if authorized self
      then (case expired e self of Inl err \<Rightarrow> Inl err | Inr b \<Rightarrow> Inr (\<not> b))
      else Inr False)"

text \<open>The account object \<^verbatim>\<open>fetch_token\<close> builds (\<^verbatim>\<open>account.py\<close>).\<close>

definition Account :: "env \<Rightarrow> client \<Rightarrow> error + tesla_object" where
  "Account e client =
     (case subscript (token client) ''access_token'' of
        Inl err \<Rightarrow> Inl err
      | Inr a \<Rightarrow>
          Inr \<lparr>base_url = base_url client,
               headers = merge (headers client) ''Authorization'' (''Bearer '' @ py_str e a)\<rparr>)"

text \<open>
  The first part of \<^verbatim>\<open>fetch_token\<close>: without an \<^verbatim>\<open>authorization_response\<close> the
  operator is sent to the authorization URL. The method is past its
  \<^verbatim>\<open>if self.authorized\<close> here, so \<^verbatim>\<open>authorization_url\<close> gives a URL; \<^verbatim>\<open>None\<close>
  would not be one the browser call accepts.
\<close>

definition authorization_response :: "env \<Rightarrow> kwargs \<Rightarrow> client \<Rightarrow> (error + kwargs) \<times> client" where
  "authorization_response e kwargs self =
     (if kwargs_get kwargs ''authorization_response'' = JNull
      then (case authorization_url e ''/oauth2/v3/authorize'' [] self of
              (Inl err, self1) \<Rightarrow> (Inl err, self1)
            | (Inr None, self1) \<Rightarrow> (Inl TypeError, self1)
            | (Inr (Some url), self1) \<Rightarrow>
                (let (answer, self2) = authenticate e url self1
                 in (Inr (merge kwargs ''authorization_response'' (JStr answer)), self2)))
      else (Inr kwargs, self))"

text \<open>
  \<^verbatim>\<open>_token_updater\<close> calls \<^verbatim>\<open>fetch_token\<close>, which calls \<^verbatim>\<open>_token_updater\<close>. The first
  argument of both is the number of nested calls the interpreter still allows;
  at none left Python raises \<^verbatim>\<open>RecursionError\<close>. The log lines are left out, the
  \<^verbatim>\<open>ctime\<close> in one of them with it. The \<^verbatim>\<open>token\<close> parameter of \<^verbatim>\<open>_token_updater\<close>
  is left out as well: its body never reads it.
\<close>

fun token_updater :: "nat \<Rightarrow> env \<Rightarrow> client \<Rightarrow> (error + unit) \<times> client"
and fetch_token :: "nat \<Rightarrow> env \<Rightarrow> string \<Rightarrow> kwargs \<Rightarrow> client \<Rightarrow> (error + json) \<times> client" where
  "token_updater 0 e self = (Inl RecursionError, self)"
| "token_updater (Suc depth) e self =
     (case load_cache e self of
        (Inl err, self1) \<Rightarrow> (Inl err, self1)
      | (Inr cache, self1) \<Rightarrow>
          (case cache of
             JObj entries \<Rightarrow>
               (case authorized_and_not_expired e self1 of
                  Inl err \<Rightarrow> (Inl err, self1)
                | Inr True \<Rightarrow>
                    (Inr (),
                     dump_cache
                       (JObj (merge entries (email self1)
                                (JObj [(''url'', sso_base_url self1), (''sso'', token self1)])))
                       self1)
                | Inr False \<Rightarrow>
                    (case map_of entries (email self1) of
                       None \<Rightarrow> (Inr (), self1)
                     | Some entry \<Rightarrow>
                         (case dict_get entry ''url'' (sso_base_url self1) of
                            Inl err \<Rightarrow> (Inl err, self1)
                          | Inr url \<Rightarrow>
                              (case dict_get entry ''sso'' (JObj []) of
                                 Inl err \<Rightarrow> (Inl err, self1\<lparr>sso_base_url := url\<rparr>)
                               | Inr sso \<Rightarrow>
                                   (case set_token sso (self1\<lparr>sso_base_url := url\<rparr>) of
                                      (Inl err, self2) \<Rightarrow> (Inl err, self2)
                                    | (Inr u, self2) \<Rightarrow>
                                        if \<not> truthy (token self2) then (Inr (), self2)
                                        else
                                          (case expires_at self2 of
                                             Inl err \<Rightarrow> (Inl err, self2)
                                           | Inr stamp \<Rightarrow>
                                               (case as_number stamp of
                                                  None \<Rightarrow> (Inl TypeError, self2)
                                                | Some x \<Rightarrow>
                                                    if 0 < x \<and> x < time e
                                                    then (case fetch_token depth e ''oauth2/v3/token'' [] self2 of
                                                            (Inl err, self3) \<Rightarrow> (Inl err, self3)
                                                          | (Inr t, self3) \<Rightarrow> (Inr (), self3))
                                                    else (Inr (), self2))))))))
           | _ \<Rightarrow> (Inl ValueError, self1)))"
| "fetch_token 0 e token_path kwargs self = (Inl RecursionError, self)"
| "fetch_token (Suc depth) e token_path kwargs self =
     (if authorized self then (Inr (token self), self)
      else
        (case authorization_response e kwargs self of
           (Inl err, self1) \<Rightarrow> (Inl err, self1)
         | (Inr kwargs1, self1) \<Rightarrow>
             (case code_verifier self1 of
                None \<Rightarrow> (Inl AttributeError, self1)
              | Some verifier \<Rightarrow>
                  (let kwargs2 = merge kwargs1 ''include_client_id'' (JBool True);
                       kwargs3 = setdefault kwargs2 ''code_verifier'' (JStr verifier);
                       kwargs4 = setdefault kwargs3 ''verify'' (JBool (verify self1))
                   in (case urljoin_base (sso_base_url self1) token_path of
                         Inl err \<Rightarrow> (Inl err, self1)
                       | Inr url \<Rightarrow>
                           (let self2 = self1\<lparr>trace := trace self1 @ [Super_fetch_token url kwargs4]\<rparr>
                            in (case super_fetch_token e url kwargs4 of
                                  Inl err \<Rightarrow> (Inl err, self2)
                                | Inr new_token \<Rightarrow>
                                    (case set_token new_token self2 of
                                       (Inl err, self3) \<Rightarrow> (Inl err, self3)
                                     | (Inr u, self3) \<Rightarrow>
                                         (case token_updater depth e self3 of
                                            (Inl err, self4) \<Rightarrow> (Inl err, self4)
                                          | (Inr u', self4) \<Rightarrow>
                                              (case Account e self4 of
                                                 Inl err \<Rightarrow> (Inl err, self4)
                                               | Inr acct \<Rightarrow>
                                                   (Inr (token self4),
                                                    self4\<lparr>account := Some acct\<rparr>)))))))))))"

definition refresh_token :: "nat \<Rightarrow> env \<Rightarrow> string \<Rightarrow> kwargs \<Rightarrow> client \<Rightarrow> (error + json) \<times> client" where
  "refresh_token depth e token_path kwargs self =
     (if \<not> authorized self \<and> \<not> truthy (kwargs_get kwargs ''refresh_token'')
      then (Inl ValueError, self)
      else
        (let kwargs1 = setdefault kwargs ''verify'' (JBool (verify self))
         in (case urljoin_base (sso_base_url self) token_path of
               Inl err \<Rightarrow> (Inl err, self)
             | Inr url \<Rightarrow>
                 (let self1 = self\<lparr>trace := trace self @ [Super_refresh_token url kwargs1]\<rparr>
                  in (case super_refresh_token e url kwargs1 (token self1) of
                        Inl err \<Rightarrow> (Inl err, self1)
                      | Inr new_token \<Rightarrow>
                          (case set_token new_token self1 of
                             (Inl err, self2) \<Rightarrow> (Inl err, self2)
                           | (Inr u, self2) \<Rightarrow>
                               (case token_updater depth e self2 of
                                  (Inl err, self3) \<Rightarrow> (Inl err, self3)
                                | (Inr u', self3) \<Rightarrow> (Inr (token self3), self3))))))))"

subsection \<open>Logout and login\<close>

definition logout :: "nat \<Rightarrow> env \<Rightarrow> bool \<Rightarrow> client \<Rightarrow> (error + string option) \<times> client" where
  "logout depth e sign_out self =
     (if \<not> authorized self then (Inr None, self)
      else
        (case urljoin_base (sso_base_url self) ''/oauth2/v3/logout?client_id=ownerapi'' of
           Inl err \<Rightarrow> (Inl err, self)
         | Inr url \<Rightarrow>
             (let self1 = (if sign_out then self\<lparr>trace := trace self @ [Opened_browser url]\<rparr> else self)
              in (case set_token (JObj []) self1 of
                    (Inl err, self2) \<Rightarrow> (Inl err, self2)
                  | (Inr u, self2) \<Rightarrow>
                      (case token_updater depth e self2 of
                         (Inl err, self3) \<Rightarrow> (Inl err, self3)
                       | (Inr u', self3) \<Rightarrow> (Inr (Some url), self3\<lparr>access_token := JNull\<rparr>))))))"

text \<open>The vehicle object of \<^verbatim>\<open>vehicle/vehicle.py\<close>, one per entry of the account's
  vehicle list.\<close>

definition Vehicle :: "env \<Rightarrow> client \<Rightarrow> json \<Rightarrow> error + vehicle" where
  "Vehicle e client data_arg =
     (case data_arg of
        JObj items \<Rightarrow>
          (case subscript data_arg ''id'' of
             Inl err \<Rightarrow> Inl err
           | Inr ident \<Rightarrow>
               (case urljoin (base_url client) (''vehicles/'' @ py_str e ident @ ''/'') of
                  Inl err \<Rightarrow> Inl err
                | Inr url \<Rightarrow>
                    (case subscript (token client) ''access_token'' of
                       Inl err \<Rightarrow> Inl err
                     | Inr a \<Rightarrow>
                         (let hdrs = merge (headers client) ''Authorization'' (''Bearer '' @ py_str e a)
                          in Inr \<lparr>base_url = url, headers = hdrs,
                                  data = JObj (merge items ''licence_plate'' (JStr ''None'')),
                                  Command_of = Command \<lparr>base_url = url, headers = hdrs\<rparr>\<rparr>))))
      | _ \<Rightarrow> Inl TypeError)"

text \<open>\<^verbatim>\<open>for vehicle in v\<close>: a list gives its items, a dict its keys, a string its
  characters.\<close>

fun iterate :: "json \<Rightarrow> error + json list" where
  "iterate (JArr xs) = Inr xs"
| "iterate (JObj kvs) = Inr (map (\<lambda>kv. JStr (fst kv)) kvs)"
| "iterate (JStr s) = Inr (map (\<lambda>c. JStr [c]) s)"
| "iterate v = Inl TypeError"

fun hashable :: "json \<Rightarrow> bool" where
  "hashable (JArr xs) = False"
| "hashable (JObj kvs) = False"
| "hashable v = True"

text \<open>The dict comprehension of \<^verbatim>\<open>login\<close>: key, then value, then the store.\<close>

fun map_vehicles :: "env \<Rightarrow> client \<Rightarrow> json list \<Rightarrow> (json \<times> vehicle) list \<Rightarrow> error + (json \<times> vehicle) list" where
  "map_vehicles e self [] acc = Inr acc"
| "map_vehicles e self (v # vs) acc =
     (case subscript v ''display_name'' of
        Inl err \<Rightarrow> Inl err
      | Inr name \<Rightarrow>
          (case Vehicle e self v of
             Inl err \<Rightarrow> Inl err
           | Inr car \<Rightarrow>
               if hashable name then map_vehicles e self vs (merge acc name car)
               else Inl TypeError))"

definition login :: "nat \<Rightarrow> env \<Rightarrow> client \<Rightarrow> (error + unit) \<times> client" where
  "login depth e self =
     (case token_updater depth e self of
        (Inl err, self1) \<Rightarrow> (Inl err, self1)
      | (Inr u, self1) \<Rightarrow>
          (case fetch_token depth e ''oauth2/v3/token'' [] self1 of
             (Inl err, self2) \<Rightarrow> (Inl err, self2)
           | (Inr t, self2) \<Rightarrow>
               (case account self2 of
                  None \<Rightarrow> (Inl AttributeError, self2)
                | Some acct \<Rightarrow>
                    (let (listing, sent) = get (requests_get e) acct ''vehicles'' None;
                         self3 = self2\<lparr>trace := trace self2 @ map Api_request sent\<rparr>
                     in (case listing of
                           Inl err \<Rightarrow> (Inl err, self3)
                         | Inr vs \<Rightarrow>
                             (case iterate vs of
                                Inl err \<Rightarrow> (Inl err, self3)
                              | Inr items \<Rightarrow>
                                  (case map_vehicles e self3 items [] of
                                     Inl err \<Rightarrow> (Inl err, self3)
                                   | Inr m \<Rightarrow> (Inr (), self3\<lparr>vehicles := Some m\<rparr>))))))))"

section \<open>Energy sites (\<^verbatim>\<open>energy.py\<close>)\<close>

text \<open>
  \<^verbatim>\<open>Energy.__init__\<close> assigns \<^verbatim>\<open>base_url\<close> a plain string literal, not an f-string,
  and does not read \<^verbatim>\<open>site_id\<close>. Reading the access token out of the client's
  token raises for a client that holds none.
\<close>

definition Energy :: "env \<Rightarrow> client \<Rightarrow> string \<Rightarrow> error + tesla_object" where
  "Energy e client site_id =
     (case subscript (token client) ''access_token'' of
        Inl err \<Rightarrow> Inl err
      | Inr a \<Rightarrow>
          Inr \<lparr>base_url = ''https://owner-api.teslamotors.com/api/1/energy_sites/{site_id}/'',
               headers = merge (headers client) ''Authorization'' (''Bearer '' @ py_str e a)\<rparr>)"

text \<open>The endpoints the methods of \<^verbatim>\<open>Energy\<close> pass to \<^verbatim>\<open>get\<close>.\<close>

definition energy_endpoints :: "string list" where
  "energy_endpoints = [''calendar_history'', ''backup_time_remaining'', ''live_status'', ''programs'',
     ''site_info'', ''site_status'', ''tariff_rate'', ''history'']"

section \<open>The origin of a URL\<close>

text \<open>
  What the specification calls the origin of a redirect target: scheme, \<open>://\<close>, host
  and port, and a closing slash. It is defined for the absolute web URLs: those that
  \<^verbatim>\<open>urlsplit\<close> accepts, with the scheme \<open>http\<close> or \<open>https\<close> and with a host. User
  information, the text up to the last \<open>@\<close> of the network location, is no part of
  an origin.
\<close>

definition hostport :: "string \<Rightarrow> string" where
  "hostport netloc = rev (takeWhile (\<lambda>c. c \<noteq> CHR ''@'') (rev netloc))"

definition is_web_url :: "string \<Rightarrow> bool" where
  "is_web_url u =
     (case urlsplit u '''' of
        Inl err \<Rightarrow> False
      | Inr (scheme, netloc, path, query, fragment) \<Rightarrow>
          (scheme = ''http'' \<or> scheme = ''https'') \<and> hostport netloc \<noteq> [])"

definition has_userinfo :: "string \<Rightarrow> bool" where
  "has_userinfo u =
     (case urlsplit u '''' of
        Inl err \<Rightarrow> False
      | Inr (scheme, netloc, path, query, fragment) \<Rightarrow> List.member netloc (CHR ''@''))"

definition origin :: "string \<Rightarrow> string" where
  "origin u =
     (case urlsplit u '''' of
        Inl err \<Rightarrow> []
      | Inr (scheme, netloc, path, query, fragment) \<Rightarrow> scheme @ ''://'' @ hostport netloc @ ''/'')"

section \<open>A session to run the model on\<close>

text \<open>
  One concrete surrounding for the examples below. The OAuth library's URL builder is
  stood in for by a function that appends the parameters as a percent-encoded query
  string, the digest by one that is not SHA-256, and the token endpoint by one that
  always answers with the same token; the statements proved for every environment do
  not depend on these choices.
\<close>

definition hex_digit :: "nat \<Rightarrow> char" where
  "hex_digit n = ''0123456789ABCDEF'' ! n"

definition quote :: "string \<Rightarrow> string" where
  "quote s = concat (map (\<lambda>c. if List.member pkce_unreserved c then [c]
                              else [CHR ''%'', hex_digit (of_char c div 16), hex_digit (of_char c mod 16)]) s)"

fun example_str :: "json \<Rightarrow> string" where
  "example_str (JStr s) = s"
| "example_str (JNum n) = str_int \<lfloor>n\<rfloor>"
| "example_str (JBool b) = (if b then ''True'' else ''False'')"
| "example_str v = ''None''"

definition example_authorization_url :: "string \<Rightarrow> kwargs \<Rightarrow> error + (string \<times> string)" where
  "example_authorization_url url kwargs =
     (let state = (if truthy (kwargs_get kwargs ''state'') then example_str (kwargs_get kwargs ''state'')
                   else ''Zx81'');
          params = [(''response_type'', ''code''), (''client_id'', ''ownerapi''), (''state'', state)]
                   @ map (\<lambda>kv. (fst kv, example_str (snd kv)))
                       (filter (\<lambda>kv. fst kv \<noteq> ''state'' \<and> truthy (snd kv)) kwargs)
      in Inr (url @ ''?'' @ join (CHR ''&'') (map (\<lambda>kv. quote (fst kv) @ ''='' @ quote (snd kv)) params),
              state))"

definition example_api :: server where
  "example_api req =
     Inr \<lparr>status_code = 200, location = None,
          json_body = Some (JObj [(''response'', JArr [JObj [(''id'', JNum 12), (''display_name'', JStr ''car'')]]),
                                  (''count'', JNum 1)])\<rparr>"

definition example_env :: "response \<Rightarrow> env" where
  "example_env probe =
     \<lparr>time = 1700000000,
      entropy = (\<lambda>i. CHR ''k''),
      sha256 = (\<lambda>s. take 32 (rev s)),
      py_str = example_str,
      browser_open = (\<lambda>url. True),
      input = (\<lambda>prompt. ''https://auth.tesla.com/void/callback?code=abc&state=Zx81''),
      super_authorization_url = example_authorization_url,
      super_fetch_token = (\<lambda>url kwargs. Inr (JObj [(''access_token'', JStr ''new''),
                                                   (''refresh_token'', JStr ''r2''),
                                                   (''expires_at'', JNum 1700003600)])),
      super_refresh_token = (\<lambda>url kwargs old. Inr (JObj [(''access_token'', JStr ''fresh''),
                                                         (''refresh_token'', JStr ''r3''),
                                                         (''expires_at'', JNum 1700007200)])),
      session_get = (\<lambda>url. Inr probe),
      requests_get = example_api,
      requests_post = example_api\<rparr>"

definition plain_response :: "nat \<Rightarrow> response" where
  "plain_response status = \<lparr>status_code = status, location = None, json_body = None\<rparr>"

definition redirect_response :: response where
  "redirect_response =
     \<lparr>status_code = 302,
      location = Some ''https://auth-region2.example.com/oauth2/v3/authorize?client_id=ownerapi'',
      json_body = None\<rparr>"

text \<open>Three more redirects: to a relative reference, to a URL with user information,
  and to a URL whose bracketed host is not closed.\<close>

definition relative_redirect_response :: response where
  "relative_redirect_response =
     \<lparr>status_code = 302, location = Some ''/oauth2/v3/authorize?x=1'', json_body = None\<rparr>"

definition userinfo_redirect_response :: response where
  "userinfo_redirect_response =
     \<lparr>status_code = 302,
      location = Some ''https://user@auth-region2.example.com/oauth2/v3/authorize'',
      json_body = None\<rparr>"

definition malformed_redirect_response :: response where
  "malformed_redirect_response =
     \<lparr>status_code = 302, location = Some ''https://[::1/x'', json_body = None\<rparr>"

text \<open>A token object as the cache file is documented to hold it, with its expiry in
  epoch seconds.\<close>

definition token_expiring :: "real \<Rightarrow> json" where
  "token_expiring stamp =
     JObj [(''access_token'', JStr ''old''), (''refresh_token'', JStr ''r1''), (''expires_at'', JNum stamp)]"

definition cache_record :: "real \<Rightarrow> json" where
  "cache_record stamp =
     JObj [(''a@b.c'', JObj [(''url'', JStr ''https://auth.tesla.com''), (''sso'', token_expiring stamp)])]"

definition example_disk :: "(content \<times> nat) option \<Rightarrow> disk" where
  "example_disk f = \<lparr>parent_parent_exists = True, parent_exists = True, cache_file = f, create_mode = 420\<rparr>"

definition missing_disk :: disk where
  "missing_disk = \<lparr>parent_parent_exists = False, parent_exists = False, cache_file = None, create_mode = 420\<rparr>"

definition example_client :: "disk \<Rightarrow> client" where
  "example_client d =
     \<lparr>base_url = ''https://owner-api.teslamotors.com/api/1/'',
      headers = [(''Content-Type'', ''application/json''), (''User-Agent'', ''tesla/1''),
                 (''X-Tesla-User-Agent'', ''TeslaApp/4.10.0'')],
      email = ''a@b.c'', sso_base_url = JStr ''https://auth.tesla.com'', token = JStr [],
      access_token = JNull, code_verifier = None, verify = True,
      account = None, vehicles = None, disk = d, trace = []\<rparr>"

text \<open>The same session once a token is held: the state \<^verbatim>\<open>fetch_token\<close> leaves.\<close>

definition authorized_client :: "real \<Rightarrow> disk \<Rightarrow> client" where
  "authorized_client stamp d =
     (example_client d)\<lparr>token := token_expiring stamp, access_token := JStr ''old''\<rparr>"

text \<open>A server that answers every request with HTTP 401 and a JSON error body, and an
  object with the two attributes the wrappers read.\<close>

definition unauthorized_response :: response where
  "unauthorized_response =
     \<lparr>status_code = 401, location = None,
      json_body = Some (JObj [(''response'', JNull), (''error'', JStr ''invalid bearer token'')])\<rparr>"

definition example_object :: tesla_object where
  "example_object = \<lparr>base_url = ''https://owner-api.teslamotors.com/api/1/'',
                      headers = [(''Authorization'', ''Bearer old'')]\<rparr>"

section \<open>Calls of the refresh operation\<close>

text \<open>The calls of \<^verbatim>\<open>OAuth2Session.refresh_token\<close> in a trace: the only place the
  code makes one is \<^verbatim>\<open>Client.refresh_token\<close>.\<close>

fun is_refresh :: "event \<Rightarrow> bool" where
  "is_refresh (Super_refresh_token url kwargs) = True"
| "is_refresh ev = False"

definition refresh_calls :: "event list \<Rightarrow> event list" where
  "refresh_calls tr = filter is_refresh tr"

section \<open>Facts about the helpers\<close>

lemma map_of_merge_same: "map_of (merge kvs k v) k = Some v"
  by (induction kvs) auto

lemma map_of_merge_other: "k' \<noteq> k \<Longrightarrow> map_of (merge kvs k v) k' = map_of kvs k'"
  by (induction kvs) auto

lemma digit_char_is_digit: "k < 10 \<Longrightarrow> digit_char k \<in> set ''0123456789''"
  unfolding digit_char_def by (rule nth_mem) simp

lemma str_nat_digits: "set (str_nat n) \<subseteq> set ''0123456789''"
proof (induction n rule: str_nat.induct)
  case (1 n)
  show ?case
  proof (cases "n < 10")
    case True
    then show ?thesis using digit_char_is_digit[of n] by (subst str_nat.simps) simp
  next
    case False
    then show ?thesis using 1 digit_char_is_digit[of "n mod 10"] by (subst str_nat.simps) simp
  qed
qed

lemma str_nat_length_1: "n < 10 \<Longrightarrow> length (str_nat n) = 1"
  by (subst str_nat.simps) simp

lemma str_nat_length_step: "10 \<le> n \<Longrightarrow> length (str_nat n) = Suc (length (str_nat (n div 10)))"
  by (subst str_nat.simps) simp

lemma str_nat_length_le4: "n < 10000 \<Longrightarrow> 1 \<le> length (str_nat n) \<and> length (str_nat n) \<le> 4"
proof -
  assume a: "n < 10000"
  consider "n < 10" | "10 \<le> n" "n < 100" | "100 \<le> n" "n < 1000" | "1000 \<le> n"
    by linarith
  then show ?thesis
  proof cases
    case 1
    then show ?thesis by (simp add: str_nat_length_1)
  next
    case 2
    then have "n div 10 < 10" by simp
    then show ?thesis using 2 by (simp add: str_nat_length_step str_nat_length_1)
  next
    case 3
    then have "n div 10 < 100" "10 \<le> n div 10" "n div 10 div 10 < 10" by simp_all
    then show ?thesis using 3 by (simp add: str_nat_length_step str_nat_length_1)
  next
    case 4
    then have "n div 10 < 1000" "100 \<le> n div 10" "10 \<le> n div 10 div 10" "n div 10 div 10 div 10 < 10"
      using a by simp_all
    then show ?thesis using 4 by (simp add: str_nat_length_step str_nat_length_1)
  qed
qed

lemma zfill_digits:
  assumes "s \<noteq> []" "set s \<subseteq> set ''0123456789''"
  shows "zfill w s = replicate (w - length s) (CHR ''0'') @ s"
proof -
  obtain c rest where s: "s = c # rest" using assms(1) by (cases s) auto
  have "c \<in> set ''0123456789''" using assms(2) s by simp
  then have "c \<noteq> CHR ''+''" "c \<noteq> CHR ''-''" by auto
  then show ?thesis by (simp add: zfill_def s)
qed

lemma pin_of_draw:
  "length (zfill 4 (str_int (randint 0 1000 draw))) = 4 \<and>
   set (zfill 4 (str_int (randint 0 1000 draw))) \<subseteq> set ''0123456789''"
proof -
  define k where "k = draw mod 1001"
  have r: "randint 0 1000 draw = int k" by (simp add: randint_def k_def zmod_int)
  have k: "k < 10000" by (simp add: k_def)
  have s: "str_int (int k) = str_nat k" by (simp add: str_int_def)
  have len: "1 \<le> length (str_nat k)" "length (str_nat k) \<le> 4"
    using str_nat_length_le4[OF k] by simp_all
  then have ne: "str_nat k \<noteq> []" by auto
  have z: "zfill 4 (str_nat k) = replicate (4 - length (str_nat k)) (CHR ''0'') @ str_nat k"
    by (rule zfill_digits[OF ne str_nat_digits])
  show ?thesis using len str_nat_digits[of k] by (auto simp: r s z)
qed

lemma of_char_lt_256: "of_char c < (256::nat)"
proof -
  have "of_char c = (of_char c mod 256 :: nat)" by simp
  also have "\<dots> < 256" by (rule mod_less_divisor) simp
  finally show ?thesis .
qed

lemma b64_char_mem: "i < 64 \<Longrightarrow> b64_char i \<in> set urlsafe_alphabet"
  unfolding b64_char_def by (rule nth_mem) (simp add: urlsafe_alphabet_def)

lemma pad_not_in_alphabet: "CHR ''='' \<notin> set urlsafe_alphabet"
  by (simp add: urlsafe_alphabet_def)

lemma alphabet_unreserved: "set urlsafe_alphabet \<subseteq> set pkce_unreserved"
  by (simp add: urlsafe_alphabet_def pkce_unreserved_def)

lemma nopad_alphabet: "set (base64url_nopad xs) \<subseteq> set urlsafe_alphabet"
proof (induction xs rule: base64url_nopad.induct)
  case (1 a b c rest)
  have "of_char a * 65536 + of_char b * 256 + of_char c < (16777216::nat)"
    using of_char_lt_256[of a] of_char_lt_256[of b] of_char_lt_256[of c] by linarith
  then have "(of_char a * 65536 + of_char b * 256 + of_char c) div 262144 < (64::nat)"
    by (intro less_mult_imp_div_less) simp
  then show ?case using 1 by (simp add: Let_def b64_char_mem)
next
  case (2 a b)
  have "of_char a * 65536 + of_char b * 256 < (16777216::nat)"
    using of_char_lt_256[of a] of_char_lt_256[of b] by linarith
  then have "(of_char a * 65536 + of_char b * 256) div 262144 < (64::nat)"
    by (intro less_mult_imp_div_less) simp
  then show ?case by (simp add: Let_def b64_char_mem)
next
  case (3 a)
  have "of_char a * 65536 < (16777216::nat)" using of_char_lt_256[of a] by linarith
  then have "(of_char a * 65536) div 262144 < (64::nat)"
    by (intro less_mult_imp_div_less) simp
  then show ?case by (simp add: Let_def b64_char_mem)
next
  case 4
  show ?case by simp
qed

text \<open>The padded encoder is the unpadded encoding followed by its padding.\<close>

lemma encode_is_nopad_padded:
  "urlsafe_b64encode xs = base64url_nopad xs @ replicate ((3 - length xs mod 3) mod 3) (CHR ''='')"
proof (induction xs rule: urlsafe_b64encode.induct)
  case (1 a b c rest)
  then show ?case by (simp add: Let_def)
next
  case (2 a b)
  have p: "replicate ((3 - length [a, b] mod 3) mod 3) (CHR ''='') = ''=''" by simp
  show ?case unfolding p by (simp add: Let_def)
next
  case (3 a)
  have p: "replicate ((3 - length [a] mod 3) mod 3) (CHR ''='') = ''==''"
    by (simp add: numeral_2_eq_2)
  show ?case unfolding p by (simp add: Let_def)
next
  case 4
  show ?case by simp
qed

lemma nopad_length: "length (base64url_nopad xs) = (4 * length xs + 2) div 3"
  by (induction xs rule: base64url_nopad.induct) (simp_all add: Let_def)

lemma rstrip_padding:
  assumes "CHR ''='' \<notin> set body"
  shows "rstrip ''='' (body @ replicate k (CHR ''='')) = body"
proof -
  have r: "\<And>s. rstrip ''='' s = rev (dropWhile (\<lambda>c. c = CHR ''='') (rev s))"
    by (simp add: rstrip_def)
  have a: "dropWhile (\<lambda>c. c = CHR ''='') (replicate k (CHR ''='') @ rev body)
           = dropWhile (\<lambda>c. c = CHR ''='') (rev body)"
    by (rule dropWhile_append2) simp
  have b: "dropWhile (\<lambda>c. c = CHR ''='') (rev body) = rev body"
    using assms by (cases "rev body") auto
  show ?thesis by (simp add: r a b)
qed

lemma rstrip_encode: "rstrip ''='' (urlsafe_b64encode xs) = base64url_nopad xs"
proof -
  have "CHR ''='' \<notin> set (base64url_nopad xs)"
    using nopad_alphabet[of xs] pad_not_in_alphabet by blast
  then show ?thesis by (simp add: encode_is_nopad_padded rstrip_padding)
qed

lemma verifier_length: "length (new_code_verifier src) = 43"
  by (simp add: new_code_verifier_def rstrip_encode nopad_length urandom_def)

lemma verifier_charset: "set (new_code_verifier src) \<subseteq> set pkce_unreserved"
proof -
  have "set (new_code_verifier src) \<subseteq> set urlsafe_alphabet"
    by (simp add: new_code_verifier_def rstrip_encode nopad_alphabet)
  then show ?thesis using alphabet_unreserved by blast
qed

lemma energy_urls:
  "list_all (\<lambda>ep. urljoin ''https://owner-api.teslamotors.com/api/1/energy_sites/{site_id}/'' ep
       = Inr (''https://owner-api.teslamotors.com/api/1/energy_sites/'' @ ''{site_id}'' @ ''/'' @ ep))
     energy_endpoints"
  by code_simp

lemma ex_authorize: "urljoin ''https://auth.tesla.com'' ''/oauth2/v3/authorize'' = Inr ''https://auth.tesla.com/oauth2/v3/authorize''"
  by code_simp

lemma example_probe_runs:
  "\<exists>u. fst (authorization_url (example_env (plain_response 200)) ''/oauth2/v3/authorize'' []
          (example_client (example_disk None))) = Inr (Some u)"
  by (simp add: authorization_url_def example_env_def example_client_def authorized_def urljoin_base_def
        ex_authorize example_authorization_url_def plain_response_def is_redirect_def ok_def Let_def)

lemma bit_length_le: "m < 2 ^ j \<Longrightarrow> bit_length m \<le> j"
proof (induction j arbitrary: m)
  case 0
  then have "m = 0" by simp
  then show ?case by (subst bit_length.simps) simp
next
  case (Suc j)
  then have "m div 2 < 2 ^ j" by auto
  then have "bit_length (m div 2) \<le> j" by (rule Suc.IH)
  then show ?case by (subst bit_length.simps) simp
qed

lemma bit_length_eq: "2 ^ j \<le> m \<Longrightarrow> m < 2 ^ Suc j \<Longrightarrow> bit_length m = Suc j"
proof (induction j arbitrary: m)
  case 0
  then have "m = Suc 0" by simp
  moreover have "bit_length (Suc 0) = Suc 0"
    by (subst bit_length.simps) (simp add: bit_length.simps[of 0])
  ultimately show ?case by simp
next
  case (Suc j)
  have a: "2 ^ j \<le> m div 2" using Suc.prems(1) by auto
  have b: "m div 2 < 2 ^ Suc j" using Suc.prems(2) by auto
  have "bit_length (m div 2) = Suc j" using a b by (rule Suc.IH)
  moreover have "0 < (2::nat) ^ Suc j" by simp
  then have "m \<noteq> 0" using Suc.prems(1) by linarith
  ultimately show ?case by (subst bit_length.simps) simp
qed

text \<open>An \<^verbatim>\<open>int\<close> of magnitude at most \<open>2 ^ 53\<close> is converted without loss.\<close>

lemma int_to_float_exact:
  assumes "\<bar>n\<bar> \<le> 2 ^ 53"
  shows "int_to_float n = Inr (of_int n)"
proof -
  define m where "m = nat \<bar>n\<bar>"
  have m: "m \<le> 2 ^ 53" using assms by (simp add: m_def nat_le_iff)
  have big: "\<not> (2 ^ 1024 - 2 ^ 970 \<le> m)" using m by simp
  have "sgn n * int m = n" by (simp add: m_def mult_sgn_abs)
  then have sg: "real_of_int (sgn n) * real m = real_of_int n"
    by (metis of_int_mult of_int_of_nat_eq)
  show ?thesis
  proof (cases "m < 2 ^ 53")
    case True
    then have "bit_length m \<le> 53" by (rule bit_length_le)
    then have k: "bit_length m - 53 = 0" by simp
    show ?thesis
      using big sg by (simp add: int_to_float_def Let_def m_def[symmetric] k)
  next
    case False
    then have e: "m = 2 ^ 53" using m by simp
    have "bit_length m = Suc 53" unfolding e by (rule bit_length_eq) simp_all
    then have k: "bit_length m - 53 = 1" by simp
    have q: "m div 2 = 2 ^ 52" "m mod 2 = 0" unfolding e by simp_all
    have v: "m div 2 * 2 = m" unfolding e by simp
    have rm: "real m = 9007199254740992" unfolding e by simp
    show ?thesis
      using big sg by (simp add: int_to_float_def Let_def m_def[symmetric] k q v rm)
  qed
qed

lemma to_float_exact:
  assumes "x \<notin> \<int> \<or> \<bar>x\<bar> \<le> 2 ^ 53"
  shows "to_float x = Inr x"
proof (cases "of_int \<lfloor>x\<rfloor> = x")
  case True
  then have "x \<in> \<int>" by (metis Ints_of_int)
  then have "\<bar>x\<bar> \<le> 2 ^ 53" using assms by blast
  then have "\<bar>of_int \<lfloor>x\<rfloor> :: real\<bar> \<le> 2 ^ 53" unfolding True .
  then have "\<bar>\<lfloor>x\<rfloor>\<bar> \<le> 2 ^ 53"
    by (metis of_int_abs of_int_le_iff of_int_numeral of_int_power)
  then have "int_to_float \<lfloor>x\<rfloor> = Inr (of_int \<lfloor>x\<rfloor>)" by (rule int_to_float_exact)
  then show ?thesis using True by (simp add: to_float_def)
next
  case False
  then show ?thesis by (simp add: to_float_def)
qed

lemma to_float_overflow:
  assumes "x \<in> \<int>" "2 ^ 1024 - 2 ^ 970 \<le> \<bar>x\<bar>"
  shows "to_float x = Inl OverflowError"
proof -
  from assms(1) obtain n where x: "x = of_int n" by (auto elim: Ints_cases)
  have "real_of_int (2 ^ 1024 - 2 ^ 970) \<le> real_of_int \<bar>n\<bar>" using assms(2) x by simp
  then have "2 ^ 1024 - 2 ^ 970 \<le> \<bar>n\<bar>" by (simp only: of_int_le_iff)
  then have "(2::nat) ^ 1024 - 2 ^ 970 \<le> nat \<bar>n\<bar>" by simp
  then show ?thesis by (simp add: to_float_def x int_to_float_def)
qed

lemma example_client_constructed:
  "Client ''a@b.c'' ''tesla/1'' ''https://auth.tesla.com'' ''TeslaApp/4.10.0'' True d = Inr (example_client d)"
  by (simp add: Client_def example_client_def)

section \<open>The claims\<close>

text \<open>
  C5. Every code verifier \<^verbatim>\<open>_new_code_verifier\<close> generates, whatever the 32 random
  bytes, has 43 characters, which lies in 43..128, all of them among
  \<open>A-Z a-z 0-9 - . _ ~\<close>. When \<^verbatim>\<open>authorization_url\<close> returns a URL, the verifier it
  stored in the session is that one, and both URLs it had the OAuth library build (the
  one without and the one with the login hint, the latter being the URL sent to the
  authorization endpoint) were built with \<open>code_challenge\<close> equal to the unpadded
  URL-safe Base64 of the digest of the stored verifier and with
  \<open>code_challenge_method\<close> equal to \<open>S256\<close>. The digest is the environment's
  \<open>sha256\<close>, so the statement holds for SHA-256 in particular.
\<close>

theorem pkce_verifier_and_challenge:
  "length (new_code_verifier (entropy e)) = 43 \<and>
   43 \<le> length (new_code_verifier (entropy e)) \<and> length (new_code_verifier (entropy e)) \<le> 128 \<and>
   set (new_code_verifier (entropy e)) \<subseteq> set pkce_unreserved \<and>
   (authorization_url e auth_url_path kwargs self = (Inr (Some u), self') \<longrightarrow>
      (\<exists>url kw_plain kw_hint without_hint state with_hint state'.
         code_verifier self' = Some (new_code_verifier (entropy e)) \<and>
         trace self' = trace self @ [Built_authorization_url url kw_plain,
                                     Built_authorization_url url kw_hint, Session_get with_hint] \<and>
         super_authorization_url e url kw_plain = Inr (without_hint, state) \<and>
         super_authorization_url e url kw_hint = Inr (with_hint, state') \<and>
         map_of kw_plain ''code_challenge''
           = Some (JStr (base64url_nopad (sha256 e (new_code_verifier (entropy e))))) \<and>
         map_of kw_plain ''code_challenge_method'' = Some (JStr ''S256'') \<and>
         map_of kw_hint ''code_challenge''
           = Some (JStr (base64url_nopad (sha256 e (new_code_verifier (entropy e))))) \<and>
         map_of kw_hint ''code_challenge_method'' = Some (JStr ''S256'')))"
proof -
  have flow: "authorization_url e auth_url_path kwargs self = (Inr (Some u), self') \<longrightarrow>
      (\<exists>url kw_plain kw_hint without_hint state with_hint state'.
         code_verifier self' = Some (new_code_verifier (entropy e)) \<and>
         trace self' = trace self @ [Built_authorization_url url kw_plain,
                                     Built_authorization_url url kw_hint, Session_get with_hint] \<and>
         super_authorization_url e url kw_plain = Inr (without_hint, state) \<and>
         super_authorization_url e url kw_hint = Inr (with_hint, state') \<and>
         map_of kw_plain ''code_challenge''
           = Some (JStr (base64url_nopad (sha256 e (new_code_verifier (entropy e))))) \<and>
         map_of kw_plain ''code_challenge_method'' = Some (JStr ''S256'') \<and>
         map_of kw_hint ''code_challenge''
           = Some (JStr (base64url_nopad (sha256 e (new_code_verifier (entropy e))))) \<and>
         map_of kw_hint ''code_challenge_method'' = Some (JStr ''S256''))"
    by (auto simp: authorization_url_def Let_def rstrip_encode map_of_merge_same map_of_merge_other
             split: if_splits sum.splits prod.splits option.splits)
  show ?thesis
    using verifier_length[of "entropy e"] verifier_charset[of "entropy e"] flow by simp
qed

theorem pkce_verifier_and_challenge_witness:
  "\<exists>url kw_plain kw_hint with_hint.
     code_verifier (snd (authorization_url (example_env (plain_response 200)) ''/oauth2/v3/authorize'' []
                           (example_client (example_disk None))))
       = Some (new_code_verifier (\<lambda>i. CHR ''k'')) \<and>
     length (new_code_verifier (\<lambda>i. CHR ''k'')) = 43 \<and>
     trace (snd (authorization_url (example_env (plain_response 200)) ''/oauth2/v3/authorize'' []
                   (example_client (example_disk None))))
       = [Built_authorization_url url kw_plain, Built_authorization_url url kw_hint, Session_get with_hint] \<and>
     map_of kw_hint ''code_challenge''
       = Some (JStr (base64url_nopad (take 32 (rev (new_code_verifier (\<lambda>i. CHR ''k''))))))"
proof -
  let ?r = "authorization_url (example_env (plain_response 200)) ''/oauth2/v3/authorize'' []
              (example_client (example_disk None))"
  obtain u where "fst ?r = Inr (Some u)" using example_probe_runs by blast
  then have run: "?r = (Inr (Some u), snd ?r)" by (metis prod.collapse)
  have env: "entropy (example_env (plain_response 200)) = (\<lambda>i. CHR ''k'')"
       "sha256 (example_env (plain_response 200)) = (\<lambda>s. take 32 (rev s))"
       "trace (example_client (example_disk None)) = []"
    by (simp_all add: example_env_def example_client_def)
  from pkce_verifier_and_challenge[of "example_env (plain_response 200)" "''/oauth2/v3/authorize''" "[]"
         "example_client (example_disk None)" u "snd ?r"] run
  show ?thesis unfolding env by auto
qed

text \<open>
  C8, as amended. Take a session whose token is a dict holding a numeric
  \<open>expires_at\<close>. If the number is not an integer, so that it is a \<^verbatim>\<open>float\<close>, or has
  a magnitude of at most \<open>2 ^ 53\<close>, as every time in epoch seconds has, the
  \<^verbatim>\<open>expired\<close> property returns, without raising, the truth value of
  \<open>expires_at - now \<le> 0\<close>, \<open>now\<close> being the clock's reading. At
  \<open>expires_at = now\<close> that is \<open>True\<close>, as the witness shows. If the number is an
  integer of magnitude \<open>2 ^ 1024 - 2 ^ 970\<close> or more, which only an \<^verbatim>\<open>int\<close> can be,
  the property raises \<^verbatim>\<open>OverflowError\<close>.
\<close>

theorem expired_iff_no_time_left:
  "token self = JObj kvs \<Longrightarrow> map_of kvs ''expires_at'' = Some (JNum x) \<Longrightarrow>
   (x \<notin> \<int> \<or> \<bar>x\<bar> \<le> 2 ^ 53 \<longrightarrow> expired e self = Inr (x - time e \<le> 0)) \<and>
   (x \<in> \<int> \<and> 2 ^ 1024 - 2 ^ 970 \<le> \<bar>x\<bar> \<longrightarrow> expired e self = Inl OverflowError)"
  by (simp add: expired_def expires_at_def py_sub_def to_float_exact to_float_overflow)

theorem expired_at_boundary_witness:
  "expired (example_env (plain_response 200)) (authorized_client 1700000000 (example_disk None)) = Inr True \<and>
   expired (example_env (plain_response 200)) (authorized_client 1700000001 (example_disk None)) = Inr False"
  using expired_iff_no_time_left[of "authorized_client 1700000000 (example_disk None)"
          "[(''access_token'', JStr ''old''), (''refresh_token'', JStr ''r1''), (''expires_at'', JNum 1700000000)]"
          1700000000 "example_env (plain_response 200)"]
        expired_iff_no_time_left[of "authorized_client 1700000001 (example_disk None)"
          "[(''access_token'', JStr ''old''), (''refresh_token'', JStr ''r1''), (''expires_at'', JNum 1700000001)]"
          1700000001 "example_env (plain_response 200)"]
  by (simp add: authorized_client_def token_expiring_def example_env_def)

text \<open>
  The claim as it stands speaks of every numeric \<open>expires_at\<close>. For the \<^verbatim>\<open>int\<close>
  \<open>10 ^ 400\<close> the property raises \<^verbatim>\<open>OverflowError\<close>: the subtraction converts the
  \<^verbatim>\<open>int\<close> to a \<^verbatim>\<open>float\<close> first. And for the \<^verbatim>\<open>int\<close> \<open>2 ^ 53 + 1\<close> at the clock
  reading \<open>2 ^ 53\<close> it returns \<open>True\<close>, although one second is left: the conversion
  rounds the \<^verbatim>\<open>int\<close> to \<open>2 ^ 53\<close>.
\<close>

theorem expired_beyond_float_counterexample:
  "expired (example_env (plain_response 200)) (authorized_client (10 ^ 400) (example_disk None))
     = Inl OverflowError \<and>
   expired ((example_env (plain_response 200))\<lparr>time := 9007199254740992\<rparr>)
       (authorized_client 9007199254740993 (example_disk None))
     = Inr True \<and>
   \<not> ((9007199254740993::real) - 9007199254740992 \<le> 0)"
proof -
  have f: "\<lfloor>(10::real) ^ 400\<rfloor> = 10 ^ 400" by simp
  have a: "to_float (10 ^ 400) = Inl OverflowError"
    unfolding to_float_def f by (simp add: int_to_float_def)
  have "bit_length 9007199254740993 = Suc 53" by (rule bit_length_eq) simp_all
  then have k: "bit_length 9007199254740993 - 53 = 1" by simp
  have b: "to_float 9007199254740993 = Inr 9007199254740992"
    by (simp add: to_float_def int_to_float_def Let_def k)
  have e: "\<And>stamp env. expired env (authorized_client stamp (example_disk None))
             = (case to_float stamp of Inl err \<Rightarrow> Inl err | Inr f \<Rightarrow> Inr (f - time env \<le> 0))"
    by (simp add: expired_def expires_at_def py_sub_def authorized_client_def token_expiring_def
          split: sum.splits)
  show ?thesis unfolding e a b by simp
qed

text \<open>
  C9. Whenever \<^verbatim>\<open>Energy(client, site_id)\<close> constructs an object, its \<^verbatim>\<open>base_url\<close>
  is the literal \<^verbatim>\<open>https://owner-api.teslamotors.com/api/1/energy_sites/{site_id}/\<close>
  with the placeholder unexpanded, the same for any two clients and site ids; and
  every request that \<^verbatim>\<open>get\<close> sends for one of the endpoints the class's methods
  pass goes to a URL that contains the text \<open>{site_id}\<close>.
\<close>

theorem energy_base_url_keeps_placeholder:
  "Energy e client site_id = Inr en \<Longrightarrow> Energy e' client' site_id' = Inr en' \<Longrightarrow>
   base_url en = ''https://owner-api.teslamotors.com/api/1/energy_sites/{site_id}/'' \<and>
   base_url en' = base_url en \<and>
   (\<forall>endpoint \<in> set energy_endpoints.
      snd (get rget en endpoint params) \<noteq> [] \<and>
      list_all (\<lambda>req. sublist ''{site_id}'' (req_url req)) (snd (get rget en endpoint params)))"
proof -
  assume a: "Energy e client site_id = Inr en" and b: "Energy e' client' site_id' = Inr en'"
  have u: "base_url en = ''https://owner-api.teslamotors.com/api/1/energy_sites/{site_id}/''"
    using a by (auto simp: Energy_def split: sum.splits)
  have u': "base_url en' = ''https://owner-api.teslamotors.com/api/1/energy_sites/{site_id}/''"
    using b by (auto simp: Energy_def split: sum.splits)
  have j: "\<And>ep. ep \<in> set energy_endpoints \<Longrightarrow>
      urljoin ''https://owner-api.teslamotors.com/api/1/energy_sites/{site_id}/'' ep
       = Inr (''https://owner-api.teslamotors.com/api/1/energy_sites/'' @ ''{site_id}'' @ ''/'' @ ep)"
    using energy_urls by (simp add: list_all_iff)
  have s: "\<And>ep. sublist ''{site_id}''
      (''https://owner-api.teslamotors.com/api/1/energy_sites/'' @ ''{site_id}'' @ ''/'' @ ep)"
    by (rule sublist_appendI)
  have g: "\<And>ep. ep \<in> set energy_endpoints \<Longrightarrow>
      snd (get rget en ep params) \<noteq> [] \<and>
      list_all (\<lambda>req. sublist ''{site_id}'' (req_url req)) (snd (get rget en ep params))"
    using s by (simp add: get_def u j Let_def)
  show ?thesis using u u' g by simp
qed

theorem energy_base_url_witness:
  "base_url (projr (Energy (example_env (plain_response 200)) (authorized_client 1700003600 (example_disk None)) ''site-1''))
     = base_url (projr (Energy (example_env (plain_response 200)) (authorized_client 1700003600 (example_disk None)) ''site-2'')) \<and>
   sublist ''{site_id}''
     (base_url (projr (Energy (example_env (plain_response 200)) (authorized_client 1700003600 (example_disk None)) ''site-1''))) \<and>
   list_all (\<lambda>req. sublist ''{site_id}'' (req_url req))
     (snd (get example_api
             (projr (Energy (example_env (plain_response 200)) (authorized_client 1700003600 (example_disk None)) ''site-1''))
             ''live_status'' None))"
proof -
  let ?en = "\<lparr>base_url = ''https://owner-api.teslamotors.com/api/1/energy_sites/{site_id}/'',
              headers = [(''Content-Type'', ''application/json''), (''User-Agent'', ''tesla/1''),
                         (''X-Tesla-User-Agent'', ''TeslaApp/4.10.0''), (''Authorization'', ''Bearer old'')]\<rparr>"
  have e1: "Energy (example_env (plain_response 200)) (authorized_client 1700003600 (example_disk None)) ''site-1'' = Inr ?en"
    by (simp add: Energy_def authorized_client_def example_client_def token_expiring_def example_env_def)
  have e2: "Energy (example_env (plain_response 200)) (authorized_client 1700003600 (example_disk None)) ''site-2'' = Inr ?en"
    by (simp add: Energy_def authorized_client_def example_client_def token_expiring_def example_env_def)
  have m: "''live_status'' \<in> set energy_endpoints" by (simp add: energy_endpoints_def)
  have lit: "sublist ''{site_id}'' (''https://owner-api.teslamotors.com/api/1/energy_sites/'' @ ''{site_id}'' @ ''/'')"
    by (rule sublist_appendI)
  from energy_base_url_keeps_placeholder[OF e1 e2, of example_api None] m lit
  show ?thesis unfolding e1 e2 by auto
qed

text \<open>
  C10, as amended. The default of \<^verbatim>\<open>valet_pin\<close> is drawn once, when the body of
  \<^verbatim>\<open>class Command\<close> is evaluated. Any two calls of \<^verbatim>\<open>set_valet_mode\<close> that leave
  \<^verbatim>\<open>valet_pin\<close> out, on any objects, with any \<^verbatim>\<open>on\<close> and against any server, store
  the same PIN: the draw made then, which lies in 0..1000, written in decimal and
  padded with zeros to exactly four digits. Each of the calls sends one request, with
  that PIN as its \<open>password\<close> parameter, when \<^verbatim>\<open>urljoin\<close> accepts the base URL of
  its object; when \<^verbatim>\<open>urljoin\<close> raises, the PIN is stored and nothing is sent.
\<close>

theorem valet_pin_default_sampled_once:
  "valet_pin (fst (snd (set_valet_mode (Command_class_body draw) rpost1 self1 on1 None)))
     = valet_pin (fst (snd (set_valet_mode (Command_class_body draw) rpost2 self2 on2 None))) \<and>
   valet_pin (fst (snd (set_valet_mode (Command_class_body draw) rpost1 self1 on1 None)))
     = Some (zfill 4 (str_int (randint 0 1000 draw))) \<and>
   map req_params (snd (snd (set_valet_mode (Command_class_body draw) rpost1 self1 on1 None)))
     = (case urljoin (base_url self1) ''command/set_valet_mode'' of
          Inl err \<Rightarrow> []
        | Inr url \<Rightarrow> [Some [(''password'', JStr (zfill 4 (str_int (randint 0 1000 draw))))]]) \<and>
   map req_params (snd (snd (set_valet_mode (Command_class_body draw) rpost2 self2 on2 None)))
     = (case urljoin (base_url self2) ''command/set_valet_mode'' of
          Inl err \<Rightarrow> []
        | Inr url \<Rightarrow> [Some [(''password'', JStr (zfill 4 (str_int (randint 0 1000 draw))))]]) \<and>
   0 \<le> randint 0 1000 draw \<and> randint 0 1000 draw \<le> 1000 \<and>
   length (zfill 4 (str_int (randint 0 1000 draw))) = 4 \<and>
   set (zfill 4 (str_int (randint 0 1000 draw))) \<subseteq> set ''0123456789''"
proof -
  have call: "\<And>rpost self on_arg. set_valet_mode (Command_class_body draw) rpost self on_arg None =
     (fst (post rpost (self\<lparr>valet_pin := Some (zfill 4 (str_int (randint 0 1000 draw)))\<rparr>) ''command/set_valet_mode''
            (Some [(''password'', JStr (zfill 4 (str_int (randint 0 1000 draw))))]) None),
      self\<lparr>valet_pin := Some (zfill 4 (str_int (randint 0 1000 draw)))\<rparr>,
      snd (post rpost (self\<lparr>valet_pin := Some (zfill 4 (str_int (randint 0 1000 draw)))\<rparr>) ''command/set_valet_mode''
            (Some [(''password'', JStr (zfill 4 (str_int (randint 0 1000 draw))))]) None))"
    by (simp add: set_valet_mode_def Command_class_body_def Let_def split: prod.splits)
  have sent: "\<And>rpost obj ep ps d. map req_params (snd (post rpost obj ep ps d))
                = (case urljoin (base_url obj) ep of Inl err \<Rightarrow> [] | Inr url \<Rightarrow> [ps])"
    by (simp add: post_def Let_def split: sum.splits)
  have range: "0 \<le> randint 0 1000 draw \<and> randint 0 1000 draw \<le> 1000"
    by (simp add: randint_def)
  show ?thesis using pin_of_draw[of draw] range by (simp add: call sent)
qed

lemma ex_valet_pin: "zfill 4 (str_int (randint 0 1000 7)) = ''0007''"
  by code_simp

lemma ex_valet_mode_url:
  "urljoin ''https://owner-api.teslamotors.com/api/1/'' ''command/set_valet_mode''
     = Inr ''https://owner-api.teslamotors.com/api/1/command/set_valet_mode''"
  by code_simp

theorem valet_pin_default_sampled_once_witness:
  "map req_params (snd (snd (set_valet_mode (Command_class_body 7) example_api
                               (Command example_object) None None)))
     = [Some [(''password'', JStr ''0007'')]] \<and>
   valet_pin (fst (snd (set_valet_mode (Command_class_body 7) example_api
                          (Command example_object) None None))) = Some ''0007'' \<and>
   valet_pin (fst (snd (set_valet_mode (Command_class_body 7) (\<lambda>req. Inl ConnectionError)
                          (Command example_object) (Some False) None))) = Some ''0007''"
proof -
  have b: "base_url (Command example_object) = ''https://owner-api.teslamotors.com/api/1/''"
    by (simp add: Command_def example_object_def)
  from valet_pin_default_sampled_once[of 7 example_api "Command example_object" None
         "\<lambda>req. Inl ConnectionError" "Command example_object" "Some False"]
  show ?thesis unfolding b ex_valet_mode_url ex_valet_pin by auto
qed

text \<open>
  The claim as it stands has every such call send the PIN. A call on an object whose
  base URL \<^verbatim>\<open>urljoin\<close> refuses, here one with a bracketed host that is not closed,
  stores the PIN, raises \<^verbatim>\<open>ValueError\<close> and sends nothing.
\<close>

lemma ex_valet_url: "urljoin ''https://[::1/'' ''command/set_valet_mode'' = Inl ValueError"
  by code_simp

theorem valet_pin_not_sent_counterexample:
  "set_valet_mode (Command_class_body 7) example_api
       (Command \<lparr>base_url = ''https://[::1/'', headers = []\<rparr>) None None
     = (Inl ValueError, \<lparr>base_url = ''https://[::1/'', headers = [], valet_pin = Some ''0007''\<rparr>, [])"
  by (simp add: set_valet_mode_def Command_class_body_def Command_def post_def ex_valet_pin ex_valet_url)

section \<open>The cache file and the token life cycle\<close>

lemma load_cache_try_numeric:
  "load_json (disk self) = Inr cache \<Longrightarrow> subscript cache (email self) = Inr entry \<Longrightarrow>
   subscript entry ''sso'' = Inr sso \<Longrightarrow> subscript sso ''expires_at'' = Inr (JNum x) \<Longrightarrow>
   load_cache_try e self = Inl TypeError"
  by (simp add: load_cache_try_def)

lemma subscript_is_dict: "subscript v k = Inr w \<Longrightarrow> \<exists>kvs. v = JObj kvs"
  by (cases v) auto

lemma load_cache_try_is_dict: "load_cache_try e self = Inr cache \<Longrightarrow> \<exists>kvs. cache = JObj kvs"
  by (auto simp: load_cache_try_def split: sum.splits bool.splits dest: subscript_is_dict)

lemma load_cache_frame:
  "load_cache e self = (r, self') \<Longrightarrow>
   token self' = token self \<and> access_token self' = access_token self \<and>
   cache_file (disk self') = cache_file (disk self) \<and> trace self' = trace self \<and>
   email self' = email self \<and> sso_base_url self' = sso_base_url self"
  by (auto simp: load_cache_def split: sum.splits if_splits)

lemma load_cache_is_dict: "load_cache e self = (Inr cache, self') \<Longrightarrow> \<exists>kvs. cache = JObj kvs"
  by (auto simp: load_cache_def split: sum.splits if_splits dest: load_cache_try_is_dict)

lemma set_token_empty: "set_token (JObj []) self = (Inr (), self\<lparr>token := JObj []\<rparr>)"
  by (simp add: set_token_def)

lemma token_updater_after_clearing:
  assumes "authorized self" "token self = JObj []"
  shows "\<exists>err self'. token_updater (Suc depth) e self = (Inl err, self') \<and>
           cache_file (disk self') = cache_file (disk self) \<and>
           access_token self' = access_token self \<and> trace self' = trace self"
proof (cases "load_cache e self")
  case (Pair r self1)
  note f = load_cache_frame[OF Pair]
  show ?thesis
  proof (cases r)
    case (Inl err)
    then show ?thesis using Pair f by simp
  next
    case (Inr cache)
    then obtain kvs where k: "cache = JObj kvs" using Pair load_cache_is_dict by blast
    have a: "authorized self1" using assms(1) f by (simp add: authorized_def)
    have x: "expired e self1 = Inl TypeError"
      using assms(2) f by (simp add: expired_def expires_at_def py_sub_def)
    have "authorized_and_not_expired e self1 = Inl TypeError"
      by (simp add: authorized_and_not_expired_def a x)
    then show ?thesis using Pair Inr k f by simp
  qed
qed

lemma dump_cache_trace: "trace (dump_cache cache self) = trace self"
  by (simp add: dump_cache_def split: sum.splits)

lemma set_token_trace: "set_token v self = (r, self') \<Longrightarrow> trace self' = trace self"
  by (auto simp: set_token_def Let_def split: sum.splits bool.splits)

lemma authorization_url_refresh:
  "authorization_url e p k self = (r, self') \<Longrightarrow> refresh_calls (trace self') = refresh_calls (trace self)"
  by (auto simp: authorization_url_def Let_def refresh_calls_def
           split: if_splits sum.splits prod.splits option.splits)

lemma authorization_response_refresh:
  "authorization_response e k self = (r, self') \<Longrightarrow> refresh_calls (trace self') = refresh_calls (trace self)"
  by (auto simp: authorization_response_def authenticate_def refresh_calls_def
           split: if_splits sum.splits prod.splits option.splits
           dest!: authorization_url_refresh)

lemma updater_and_fetch_never_refresh:
  "(\<forall>self. refresh_calls (trace (snd (token_updater depth e self))) = refresh_calls (trace self)) \<and>
   (\<forall>p k self. refresh_calls (trace (snd (fetch_token depth e p k self))) = refresh_calls (trace self))"
proof (induction depth)
  case 0
  show ?case by simp
next
  case (Suc depth)
  have f: "\<And>p k self. refresh_calls (trace (snd (fetch_token depth e p k self))) = refresh_calls (trace self)"
    using Suc by blast
  have u: "\<And>self. refresh_calls (trace (snd (token_updater depth e self))) = refresh_calls (trace self)"
    using Suc by blast
  have f': "\<And>p k self r self'. fetch_token depth e p k self = (r, self') \<Longrightarrow>
              refresh_calls (trace self') = refresh_calls (trace self)"
    using f by (metis snd_conv)
  have u': "\<And>self r self'. token_updater depth e self = (r, self') \<Longrightarrow>
              refresh_calls (trace self') = refresh_calls (trace self)"
    using u by (metis snd_conv)
  have one: "\<And>self. refresh_calls (trace (snd (token_updater (Suc depth) e self))) = refresh_calls (trace self)"
    by (auto simp: dump_cache_trace
             split: sum.splits prod.splits json.splits option.splits if_splits bool.splits
             dest!: load_cache_frame set_token_trace f')
  have two: "\<And>p k self. refresh_calls (trace (snd (fetch_token (Suc depth) e p k self))) = refresh_calls (trace self)"
    by (auto simp: Let_def refresh_calls_def
             split: sum.splits prod.splits option.splits if_splits
             dest!: authorization_response_refresh set_token_trace u')
  show ?case using one two by blast
qed

lemma ex_vehicles_url: "urljoin ''https://owner-api.teslamotors.com/api/1/'' ''vehicles'' = Inr ''https://owner-api.teslamotors.com/api/1/vehicles''"
  by code_simp

lemma ex_wake_url: "urljoin ''https://owner-api.teslamotors.com/api/1/'' ''wake_up'' = Inr ''https://owner-api.teslamotors.com/api/1/wake_up''"
  by code_simp

lemma urlparse_root_http: "urlparse ''/'' ''http'' = Inr (''http'', [], ''/'', [], [], [])"
  by code_simp

lemma urlparse_root_https: "urlparse ''/'' ''https'' = Inr (''https'', [], ''/'', [], [], [])"
  by code_simp

lemma urlsplit_empty: "urlsplit [] [] = Inr ([], [], [], [], [])"
  by code_simp

lemma web_schemes:
  "''http'' \<in> set uses_relative" "''https'' \<in> set uses_relative"
  "''http'' \<in> set uses_netloc" "''https'' \<in> set uses_netloc"
  by (simp_all add: uses_relative_def uses_netloc_def)

lemma root_segments:
  "split_all (CHR ''/'') ''/'' = [[], []]"
  "resolve_segments [] [[], []] = [[], []]"
  "join (CHR ''/'') [[], []] = ''/''"
  by code_simp+

lemma hostport_plain: "CHR ''@'' \<notin> set netloc \<Longrightarrow> hostport netloc = netloc"
proof -
  assume "CHR ''@'' \<notin> set netloc"
  then have "takeWhile (\<lambda>c. c \<noteq> CHR ''@'') (rev netloc) = rev netloc"
    by (auto simp: takeWhile_eq_all_conv)
  then show ?thesis unfolding hostport_def by (simp only: rev_rev_ident)
qed

lemma urljoin_root_is_origin:
  assumes "is_web_url u" "\<not> has_userinfo u"
  shows "urljoin u ''/'' = Inr (origin u)"
proof -
  obtain s n p q f where sp: "urlsplit u [] = Inr (s, n, p, q, f)"
    using assms(1) by (auto simp: is_web_url_def split: sum.splits)
  have sc: "s = ''http'' \<or> s = ''https''" using assms(1) sp by (simp add: is_web_url_def)
  have nu: "CHR ''@'' \<notin> set n" using assms(2) sp by (simp add: has_userinfo_def)
  have ne: "u \<noteq> []" using sp sc urlsplit_empty by auto
  have "\<exists>path params. urlparse u [] = Inr (s, n, path, params, q, f)"
    by (simp add: urlparse_def sp case_prod_beta)
  then obtain path params where bp: "urlparse u [] = Inr (s, n, path, params, q, f)" by blast
  have o: "origin u = s @ ''://'' @ n @ ''/''" by (simp add: origin_def sp hostport_plain[OF nu])
  from sc show ?thesis
  proof
    assume h: "s = ''http''"
    show ?thesis
      using ne bp unfolding o h
      by (simp add: urljoin_def urlparse_root_http web_schemes root_segments urlunparse_def urlunsplit_def Let_def
               del: split_all.simps resolve_segments.simps join.simps)
  next
    assume h: "s = ''https''"
    show ?thesis
      using ne bp unfolding o h
      by (simp add: urljoin_def urlparse_root_https web_schemes root_segments urlunparse_def urlunsplit_def Let_def
               del: split_all.simps resolve_segments.simps join.simps)
  qed
qed

lemma urljoin_root_origin:
  "urljoin u ''/'' = Inr b \<Longrightarrow> is_web_url u \<Longrightarrow> \<not> has_userinfo u \<Longrightarrow> b = origin u"
  using urljoin_root_is_origin[of u] by simp

lemma redirect_is_ok: "is_redirect r \<Longrightarrow> ok r"
  by (auto simp: is_redirect_def ok_def)

lemma ex_bytes: "urandom (\<lambda>i. CHR ''k'') 32 = ''kkkkkkkkkkkkkkkkkkkkkkkkkkkkkkkk''"
  by code_simp

lemma ex_verifier: "new_code_verifier (\<lambda>i. CHR ''k'') = ''a2tra2tra2tra2tra2tra2tra2tra2tra2tra2tra2s''"
  by (simp add: new_code_verifier_def ex_bytes rstrip_def Let_def b64_char_def urlsafe_alphabet_def)

lemma ex_challenge:
  "rstrip ''='' (urlsafe_b64encode ''s2art2art2art2art2art2art2art2ar'') = ''czJhcnQyYXJ0MmFydDJhcnQyYXJ0MmFydDJhcnQyYXI''"
  by (simp add: rstrip_def Let_def b64_char_def urlsafe_alphabet_def)


lemma ex_without:
  "example_authorization_url ''https://auth.tesla.com/oauth2/v3/authorize''
     [(''code_challenge'', JStr ''czJhcnQyYXJ0MmFydDJhcnQyYXJ0MmFydDJhcnQyYXI''), (''code_challenge_method'', JStr ''S256'')]
   = Inr (''https://auth.tesla.com/oauth2/v3/authorize?response_type=code&client_id=ownerapi&state=Zx81&code_challenge=czJhcnQyYXJ0MmFydDJhcnQyYXJ0MmFydDJhcnQyYXI&code_challenge_method=S256'', ''Zx81'')"
  by code_simp

lemma ex_with:
  "example_authorization_url ''https://auth.tesla.com/oauth2/v3/authorize''
     [(''code_challenge'', JStr ''czJhcnQyYXJ0MmFydDJhcnQyYXJ0MmFydDJhcnQyYXI''), (''code_challenge_method'', JStr ''S256''),
      (''login_hint'', JStr ''a@b.c''), (''state'', JStr ''Zx81'')]
   = Inr (''https://auth.tesla.com/oauth2/v3/authorize?response_type=code&client_id=ownerapi&state=Zx81&code_challenge=czJhcnQyYXJ0MmFydDJhcnQyYXJ0MmFydDJhcnQyYXI&code_challenge_method=S256&login_hint=a%40b.c'', ''Zx81'')"
  by code_simp

lemma ex_run:
  "fst (authorization_url (example_env (plain_response status)) ''/oauth2/v3/authorize'' []
          (example_client (example_disk None)))
   = Inr (Some (if ok (plain_response status)
                then ''https://auth.tesla.com/oauth2/v3/authorize?response_type=code&client_id=ownerapi&state=Zx81&code_challenge=czJhcnQyYXJ0MmFydDJhcnQyYXJ0MmFydDJhcnQyYXI&code_challenge_method=S256&login_hint=a%40b.c''
                else ''https://auth.tesla.com/oauth2/v3/authorize?response_type=code&client_id=ownerapi&state=Zx81&code_challenge=czJhcnQyYXJ0MmFydDJhcnQyYXJ0MmFydDJhcnQyYXI&code_challenge_method=S256''))"
  by (simp add: authorization_url_def example_env_def example_client_def authorized_def urljoin_base_def
        ex_verifier ex_challenge ex_authorize ex_without ex_with plain_response_def is_redirect_def Let_def
      del: urlsafe_b64encode.simps)

lemma ex_redirect_run:
  assumes "is_redirect r" "location r = Some target"
  shows "fst (authorization_url (example_env r) ''/oauth2/v3/authorize'' []
                (example_client (example_disk None)))
           = (case urljoin target ''/'' of Inl err \<Rightarrow> Inl err | Inr b \<Rightarrow> Inr (Some target))"
    and "sso_base_url (snd (authorization_url (example_env r) ''/oauth2/v3/authorize'' []
                (example_client (example_disk None))))
           = (case urljoin target ''/'' of Inl err \<Rightarrow> JStr ''https://auth.tesla.com'' | Inr b \<Rightarrow> JStr b)"
  using assms redirect_is_ok[OF assms(1)]
  by (simp_all add: authorization_url_def example_env_def example_client_def authorized_def urljoin_base_def
        ex_authorize example_authorization_url_def Let_def split: sum.splits)

lemma ex_redirects:
  "is_redirect redirect_response" "is_redirect relative_redirect_response"
  "is_redirect userinfo_redirect_response" "is_redirect malformed_redirect_response"
  by (simp_all add: is_redirect_def redirect_response_def relative_redirect_response_def
        userinfo_redirect_response_def malformed_redirect_response_def)

lemma ex_redirect_root:
  "urljoin ''https://auth-region2.example.com/oauth2/v3/authorize?client_id=ownerapi'' ''/''
     = Inr ''https://auth-region2.example.com/''"
  by code_simp

lemma ex_redirect_origin:
  "is_web_url ''https://auth-region2.example.com/oauth2/v3/authorize?client_id=ownerapi''"
  "\<not> has_userinfo ''https://auth-region2.example.com/oauth2/v3/authorize?client_id=ownerapi''"
  "origin ''https://auth-region2.example.com/oauth2/v3/authorize?client_id=ownerapi'' = ''https://auth-region2.example.com/''"
  by code_simp+

lemma ex_relative_root:
  "urljoin ''/oauth2/v3/authorize?x=1'' ''/'' = Inr ''/''"
  "\<not> is_web_url ''/oauth2/v3/authorize?x=1''"
  "\<not> is_web_url ''/''"
  by code_simp+

lemma ex_userinfo_root:
  "urljoin ''https://user@auth-region2.example.com/oauth2/v3/authorize'' ''/''
     = Inr ''https://user@auth-region2.example.com/''"
  "is_web_url ''https://user@auth-region2.example.com/oauth2/v3/authorize''"
  "has_userinfo ''https://user@auth-region2.example.com/oauth2/v3/authorize''"
  "origin ''https://user@auth-region2.example.com/oauth2/v3/authorize'' = ''https://auth-region2.example.com/''"
  by code_simp+

lemma ex_malformed_root: "urljoin ''https://[::1/x'' ''/'' = Inl ValueError"
  by code_simp

lemma ex_logout_url:
  "urljoin ''https://auth.tesla.com'' ''/oauth2/v3/logout?client_id=ownerapi''
     = Inr ''https://auth.tesla.com/oauth2/v3/logout?client_id=ownerapi''"
  by code_simp

lemma ex_token_url:
  "urljoin ''https://auth.tesla.com'' ''oauth2/v3/token'' = Inr ''https://auth.tesla.com/oauth2/v3/token''"
  by code_simp

lemma ex_vehicle_id: "str_int 12 = ''12''"
proof -
  have "str_nat 12 = ''12''" by code_simp
  then show ?thesis by (simp add: str_int_def)
qed

lemma ex_stamp_float: "to_float 1700003600 = Inr 1700003600"
  by (rule to_float_exact) simp

lemma ex_vehicle_url:
  "urljoin ''https://owner-api.teslamotors.com/api/1/'' (''vehicles/'' @ ''12'' @ ''/'')
     = Inr ''https://owner-api.teslamotors.com/api/1/vehicles/12/''"
  by code_simp

lemma ex_logout:
  "logout (Suc 0) (example_env (plain_response 200)) False
     (authorized_client 1700003600 (example_disk (Some (Json (cache_record 1700003600), 416))))
   = (Inl TypeError,
      (authorized_client 1700003600 (example_disk (Some (Json (cache_record 1700003600), 416))))\<lparr>token := JObj []\<rparr>)"
  by (simp add: logout_def authorized_def authorized_client_def example_client_def urljoin_base_def
        ex_logout_url set_token_empty load_cache_def load_cache_try_def load_json_def example_disk_def cache_record_def
        token_expiring_def permits_def S_IRUSR_def authorized_and_not_expired_def expired_def
        expires_at_def py_sub_def Let_def)

lemma ex_login:
  "\<exists>url k1 k2 probe tok kw req self'.
     login (Suc (Suc 0)) (example_env (plain_response 200))
       (example_client (example_disk (Some (Json (cache_record 1699999990), 416))))
     = (Inr (), self') \<and>
     trace self' =
       [Built_authorization_url url k1, Built_authorization_url url k2, Session_get probe,
        Opened_browser probe, Asked_input ''Enter URL after authentication: '',
        Super_fetch_token tok kw, Api_request req] \<and>
     token self' = JObj [(''access_token'', JStr ''new''), (''refresh_token'', JStr ''r2''),
                         (''expires_at'', JNum 1700003600)]"
  by (simp add: login_def load_cache_def load_cache_try_def load_json_def example_disk_def cache_record_def
        token_expiring_def permits_def S_IRUSR_def S_IWUSR_def S_IRGRP_def authorized_and_not_expired_def expired_def
        expires_at_def py_sub_def Let_def example_client_def authorized_def
        authorization_response_def authorization_url_def authenticate_def kwargs_get_def setdefault_def
        urljoin_base_def ex_authorize ex_token_url ex_vehicles_url ex_vehicle_id ex_vehicle_url ex_stamp_float
        example_env_def example_authorization_url_def plain_response_def is_redirect_def ok_def
        set_token_def dump_cache_def open_w_def Account_def get_def example_api_def Vehicle_def Command_def
      del: urlsafe_b64encode.simps join.simps append.simps)

section \<open>The claims about the cache, the session and the wrappers\<close>

text \<open>
  C1. Saving a record and loading it again does not give the record back when its
  \<open>expires_at\<close> is a number, as epoch seconds are. Whenever \<^verbatim>\<open>_dump_cache\<close> can open
  the cache file and the record saved for the session's email holds a numeric
  \<open>expires_at\<close> under \<open>sso\<close>, the file then holds the record, and \<^verbatim>\<open>_load_cache\<close>
  returns the empty dict: comparing the number with the string of
  \<^verbatim>\<open>strftime('%s')\<close> raises \<^verbatim>\<open>TypeError\<close>, which the handler of
  \<^verbatim>\<open>BaseException\<close> turns into an empty cache. The round trip the claim states fails
  for every such record, expired or not.
\<close>

theorem cache_round_trip_loses_numeric_expiry:
  "open_w (disk self) = Inr d1 \<Longrightarrow> subscript cache (email self) = Inr entry \<Longrightarrow>
   subscript entry ''sso'' = Inr sso \<Longrightarrow> subscript sso ''expires_at'' = Inr (JNum x) \<Longrightarrow>
   cache_file (disk (dump_cache cache self)) = Some (Json cache, 416) \<and>
   load_cache e (dump_cache cache self) = (Inr (JObj []), dump_cache cache self) \<and>
   cache \<noteq> JObj []"
proof -
  assume o: "open_w (disk self) = Inr d1" and c: "subscript cache (email self) = Inr entry"
    and s: "subscript entry ''sso'' = Inr sso" and x: "subscript sso ''expires_at'' = Inr (JNum x)"
  have p: "parent_exists d1" using o by (auto simp: open_w_def split: if_splits option.splits)
  have d: "dump_cache cache self = self\<lparr>disk := d1\<lparr>cache_file := Some (Json cache, 416)\<rparr>\<rparr>"
    using o by (simp add: dump_cache_def S_IWUSR_def S_IRUSR_def S_IRGRP_def)
  have j: "load_json (disk (dump_cache cache self)) = Inr cache"
    by (simp add: d load_json_def permits_def S_IRUSR_def)
  have t: "load_cache_try e (dump_cache cache self) = Inl TypeError"
    by (rule load_cache_try_numeric[OF j _ s x]) (simp add: d c)
  have l: "load_cache e (dump_cache cache self) = (Inr (JObj []), dump_cache cache self)"
    using p by (simp add: load_cache_def t) (simp add: d)
  have n: "cache \<noteq> JObj []" using c by auto
  show ?thesis using l n by (simp add: d)
qed

theorem cache_round_trip_loses_record_witness:
  "load_cache (example_env (plain_response 200))
     (dump_cache (cache_record 1700003600) (example_client (example_disk None)))
   = (Inr (JObj []), dump_cache (cache_record 1700003600) (example_client (example_disk None))) \<and>
   cache_file (disk (dump_cache (cache_record 1700003600) (example_client (example_disk None))))
   = Some (Json (cache_record 1700003600), 416)"
proof -
  have o: "open_w (disk (example_client (example_disk None)))
             = Inr ((example_disk None)\<lparr>cache_file := Some (Garbage, 420)\<rparr>)"
    by (simp add: open_w_def example_client_def example_disk_def)
  have c: "subscript (cache_record 1700003600) (email (example_client (example_disk None)))
             = Inr (JObj [(''url'', JStr ''https://auth.tesla.com''), (''sso'', token_expiring 1700003600)])"
    by (simp add: cache_record_def example_client_def)
  have s: "subscript (JObj [(''url'', JStr ''https://auth.tesla.com''), (''sso'', token_expiring 1700003600)]) ''sso''
             = Inr (token_expiring 1700003600)"
    by simp
  have x: "subscript (token_expiring 1700003600) ''expires_at'' = Inr (JNum 1700003600)"
    by (simp add: token_expiring_def)
  from cache_round_trip_loses_numeric_expiry[OF o c s x, of "example_env (plain_response 200)"] show ?thesis by simp
qed

text \<open>\<^verbatim>\<open>login\<close> never calls the refresh operation, whatever the session.\<close>

lemma login_never_refreshes: "refresh_calls (trace (snd (login depth e self))) = refresh_calls (trace self)"
proof -
  have u: "\<And>self r self'. token_updater depth e self = (r, self') \<Longrightarrow>
              refresh_calls (trace self') = refresh_calls (trace self)"
    using updater_and_fetch_never_refresh[of depth e] by (metis snd_conv)
  have f: "\<And>p k self r self'. fetch_token depth e p k self = (r, self') \<Longrightarrow>
              refresh_calls (trace self') = refresh_calls (trace self)"
    using updater_and_fetch_never_refresh[of depth e] by (metis snd_conv)
  have g: "\<And>rget obj ep ps. filter is_refresh (map Api_request (snd (get rget obj ep ps))) = []"
    by (simp add: get_def Let_def split: sum.splits)
  show ?thesis
    by (auto simp: login_def Let_def refresh_calls_def g
             split: sum.splits prod.splits option.splits
             dest!: u f)
qed

text \<open>A cached record with a numeric \<open>expires_at\<close> is dropped by the loader (see C1);
  the session is left as it was.\<close>

lemma load_cache_stale:
  assumes "parent_exists (disk s)" "load_json (disk s) = Inr cache"
    "subscript cache (email s) = Inr entry" "subscript entry ''sso'' = Inr sso"
    "subscript sso ''expires_at'' = Inr (JNum x)"
  shows "load_cache e s = (Inr (JObj []), s)"
  using load_cache_try_numeric[OF assms(2-5), of e] assms(1) by (simp add: load_cache_def)

lemma dump_cache_token: "token (dump_cache cache self) = token self"
  by (simp add: dump_cache_def split: sum.splits)

text \<open>With the cache read as empty, \<^verbatim>\<open>_token_updater\<close> leaves token and trace alone,
  and a session without a token untouched.\<close>

lemma token_updater_empty_cache:
  assumes "load_cache e s = (Inr (JObj []), s)" "token_updater d e s = (Inr u, s')"
  shows "token s' = token s \<and> trace s' = trace s \<and> (\<not> authorized s \<longrightarrow> s' = s)"
proof (cases d)
  case 0
  then show ?thesis using assms(2) by simp
next
  case (Suc d')
  then show ?thesis
    using assms
    by (auto simp: authorized_and_not_expired_def dump_cache_token dump_cache_trace
             split: sum.splits bool.splits if_splits)
qed

lemma token_updater_unauthorized:
  assumes "load_cache e s = (Inr (JObj []), s)" "\<not> authorized s"
  shows "token_updater (Suc d) e s = (Inr (), s)"
  using assms by (simp add: authorized_and_not_expired_def)

lemma authorization_url_frame:
  "authorization_url e p k s = (r, s') \<Longrightarrow> disk s' = disk s \<and> email s' = email s"
  by (auto simp: authorization_url_def Let_def
           split: if_splits sum.splits prod.splits option.splits)

lemma authorization_response_frame:
  "authorization_response e k s = (r, s') \<Longrightarrow> disk s' = disk s \<and> email s' = email s"
  by (auto simp: authorization_response_def authenticate_def
           split: if_splits sum.splits prod.splits option.splits
           dest!: authorization_url_frame)

lemma set_token_frame:
  "set_token v s = (Inr u, s') \<Longrightarrow>
   token s' = v \<and> disk s' = disk s \<and> email s' = email s \<and> trace s' = trace s"
  by (auto simp: set_token_def Let_def split: sum.splits bool.splits)

text \<open>The steps of a \<^verbatim>\<open>fetch_token\<close> that returns, for a session without a token.\<close>

lemma fetch_token_steps:
  "fetch_token (Suc d) e p k s = (Inr t, s') \<Longrightarrow> \<not> authorized s \<Longrightarrow>
   \<exists>k1 s1 url kw new s3 s4 acct.
     authorization_response e k s = (Inr k1, s1) \<and>
     super_fetch_token e url kw = Inr new \<and>
     set_token new (s1\<lparr>trace := trace s1 @ [Super_fetch_token url kw]\<rparr>) = (Inr (), s3) \<and>
     token_updater d e s3 = (Inr (), s4) \<and>
     t = token s4 \<and> s' = s4\<lparr>account := Some acct\<rparr>"
  by (auto simp: Let_def split: sum.splits prod.splits option.splits) blast

lemma fetch_token_fresh:
  assumes f: "fetch_token (Suc d) e p k s = (Inr t, s')" and na: "\<not> authorized s"
    and st: "\<And>s2. disk s2 = disk s \<Longrightarrow> email s2 = email s \<Longrightarrow> load_cache e s2 = (Inr (JObj []), s2)"
  shows "\<exists>url kw. Super_fetch_token url kw \<in> set (trace s') \<and>
           super_fetch_token e url kw = Inr (token s') \<and> t = token s'"
proof -
  from fetch_token_steps[OF f na] obtain k1 s1 url kw new s3 s4 acct where
    ar: "authorization_response e k s = (Inr k1, s1)"
    and sf: "super_fetch_token e url kw = Inr new"
    and se: "set_token new (s1\<lparr>trace := trace s1 @ [Super_fetch_token url kw]\<rparr>) = (Inr (), s3)"
    and tu: "token_updater d e s3 = (Inr (), s4)"
    and t: "t = token s4" and s': "s' = s4\<lparr>account := Some acct\<rparr>"
    by blast
  have f1: "disk s1 = disk s" "email s1 = email s"
    using authorization_response_frame[OF ar] by simp_all
  have f3: "token s3 = new" "disk s3 = disk s" "email s3 = email s"
    "trace s3 = trace s1 @ [Super_fetch_token url kw]"
    using set_token_frame[OF se] f1 by simp_all
  have "load_cache e s3 = (Inr (JObj []), s3)" using st f3 by simp
  from token_updater_empty_cache[OF this tu]
  have f4: "token s4 = new" "trace s4 = trace s1 @ [Super_fetch_token url kw]"
    using f3 by simp_all
  show ?thesis using sf t f4 by (auto simp: s')
qed

text \<open>The steps of a \<^verbatim>\<open>login\<close> that returns.\<close>

lemma login_steps:
  "login d e s = (Inr (), s') \<Longrightarrow>
   \<exists>s1 t s2. token_updater d e s = (Inr (), s1) \<and>
     fetch_token d e ''oauth2/v3/token'' [] s1 = (Inr t, s2) \<and>
     token s' = token s2 \<and> set (trace s2) \<subseteq> set (trace s')"
  by (auto simp: login_def Let_def split: sum.splits prod.splits option.splits)

text \<open>
  C2, as amended. Take a cache file with a record for the session's email whose
  \<open>expires_at\<close> is a time in the past. The loader gives \<^verbatim>\<open>login\<close> an empty cache
  instead of the record, so the stale token of the record never reaches the session,
  and \<^verbatim>\<open>login\<close> makes no call of the refresh operation. For a session that holds
  no token, as a new \<^verbatim>\<open>Client\<close> does, the token the session has when \<^verbatim>\<open>login\<close>
  returns is the one the token endpoint answered to the \<^verbatim>\<open>fetch_token\<close> call
  \<^verbatim>\<open>login\<close> made: the exchange of an authorization code that follows the
  interactive authorization.
\<close>

theorem login_stale_cache_reauthenticates:
  "parent_exists (disk self) \<Longrightarrow> load_json (disk self) = Inr cache \<Longrightarrow>
   subscript cache (email self) = Inr entry \<Longrightarrow> subscript entry ''sso'' = Inr sso \<Longrightarrow>
   subscript sso ''expires_at'' = Inr (JNum x) \<Longrightarrow> x < time e \<Longrightarrow>
   load_cache e self = (Inr (JObj []), self) \<and>
   refresh_calls (trace (snd (login (Suc depth) e self))) = refresh_calls (trace self) \<and>
   (\<not> authorized self \<and> login (Suc depth) e self = (Inr (), self') \<longrightarrow>
      (\<exists>url kwargs. Super_fetch_token url kwargs \<in> set (trace self') \<and>
                     super_fetch_token e url kwargs = Inr (token self')))"
proof -
  assume pe: "parent_exists (disk self)"
    and lj: "load_json (disk self) = Inr cache" and ce: "subscript cache (email self) = Inr entry"
    and es: "subscript entry ''sso'' = Inr sso" and sx: "subscript sso ''expires_at'' = Inr (JNum x)"
  have st: "\<And>s2. disk s2 = disk self \<Longrightarrow> email s2 = email self \<Longrightarrow>
              load_cache e s2 = (Inr (JObj []), s2)"
    using pe lj ce es sx by (intro load_cache_stale[where cache = cache and entry = entry and sso = sso and x = x]) simp_all
  have lc: "load_cache e self = (Inr (JObj []), self)" using st by simp
  have fresh: "\<exists>url kwargs. Super_fetch_token url kwargs \<in> set (trace self') \<and>
                 super_fetch_token e url kwargs = Inr (token self')"
    if na: "\<not> authorized self" and l: "login (Suc depth) e self = (Inr (), self')"
  proof -
    have tu: "token_updater (Suc depth) e self = (Inr (), self)"
      using lc na by (rule token_updater_unauthorized)
    from login_steps[OF l] tu obtain t s2 where
      f: "fetch_token (Suc depth) e ''oauth2/v3/token'' [] self = (Inr t, s2)"
      and k: "token self' = token s2" "set (trace s2) \<subseteq> set (trace self')"
      by auto
    from fetch_token_fresh[OF f na st] obtain url kw where
      "Super_fetch_token url kw \<in> set (trace s2)" "super_fetch_token e url kw = Inr (token s2)"
      by blast
    then show ?thesis using k by auto
  qed
  show ?thesis using lc login_never_refreshes[of "Suc depth" e self] fresh by blast
qed

theorem login_stale_cache_reauthenticates_witness:
  "load_cache (example_env (plain_response 200))
       (example_client (example_disk (Some (Json (cache_record 1699999990), 416))))
     = (Inr (JObj []), example_client (example_disk (Some (Json (cache_record 1699999990), 416)))) \<and>
   fst (login (Suc (Suc 0)) (example_env (plain_response 200))
          (example_client (example_disk (Some (Json (cache_record 1699999990), 416))))) = Inr () \<and>
   token (snd (login (Suc (Suc 0)) (example_env (plain_response 200))
          (example_client (example_disk (Some (Json (cache_record 1699999990), 416))))))
     = JObj [(''access_token'', JStr ''new''), (''refresh_token'', JStr ''r2''),
             (''expires_at'', JNum 1700003600)] \<and>
   refresh_calls (trace (snd (login (Suc (Suc 0)) (example_env (plain_response 200))
          (example_client (example_disk (Some (Json (cache_record 1699999990), 416))))))) = []"
proof -
  let ?e = "example_env (plain_response 200)"
  let ?c = "example_client (example_disk (Some (Json (cache_record 1699999990), 416)))"
  from ex_login obtain self' where l: "login (Suc (Suc 0)) ?e ?c = (Inr (), self')" by blast
  have na: "\<not> authorized ?c" by (simp add: authorized_def example_client_def)
  have h: "parent_exists (disk ?c)"
    "load_json (disk ?c) = Inr (cache_record 1699999990)"
    "subscript (cache_record 1699999990) (email ?c)
       = Inr (JObj [(''url'', JStr ''https://auth.tesla.com''), (''sso'', token_expiring 1699999990)])"
    "subscript (JObj [(''url'', JStr ''https://auth.tesla.com''), (''sso'', token_expiring 1699999990)]) ''sso''
       = Inr (token_expiring 1699999990)"
    "subscript (token_expiring 1699999990) ''expires_at'' = Inr (JNum 1699999990)"
    "1699999990 < time ?e"
    by (simp_all add: example_client_def example_disk_def load_json_def permits_def
          S_IRUSR_def cache_record_def token_expiring_def example_env_def)
  have t: "trace ?c = []" by (simp add: example_client_def)
  have s: "\<And>url kw. super_fetch_token ?e url kw
             = Inr (JObj [(''access_token'', JStr ''new''), (''refresh_token'', JStr ''r2''),
                          (''expires_at'', JNum 1700003600)])"
    by (simp add: example_env_def)
  from login_stale_cache_reauthenticates[OF h, of "Suc 0" self'] l na
  show ?thesis unfolding s by (auto simp: t refresh_calls_def)
qed

text \<open>
  The claim as it stands has \<^verbatim>\<open>login\<close> invoke the refresh operation. In its own
  scenario, a new session and a cached record for its email that expired ten seconds
  ago, \<^verbatim>\<open>login\<close> returns without a single call of
  \<^verbatim>\<open>OAuth2Session.refresh_token\<close>, and the session then holds the token that the
  exchange of the authorization code gave.
\<close>

theorem login_stale_cache_counterexample:
  "fst (login (Suc (Suc 0)) (example_env (plain_response 200))
       (example_client (example_disk (Some (Json (cache_record 1699999990), 416))))) = Inr () \<and>
   refresh_calls (trace (snd (login (Suc (Suc 0)) (example_env (plain_response 200))
       (example_client (example_disk (Some (Json (cache_record 1699999990), 416))))))) = [] \<and>
   token (snd (login (Suc (Suc 0)) (example_env (plain_response 200))
       (example_client (example_disk (Some (Json (cache_record 1699999990), 416))))))
     = JObj [(''access_token'', JStr ''new''), (''refresh_token'', JStr ''r2''),
             (''expires_at'', JNum 1700003600)]"
proof -
  from ex_login obtain url k1 k2 probe tok kw req self' where
    l: "login (Suc (Suc 0)) (example_env (plain_response 200))
       (example_client (example_disk (Some (Json (cache_record 1699999990), 416)))) = (Inr (), self')"
    and t: "trace self' = [Built_authorization_url url k1, Built_authorization_url url k2, Session_get probe,
        Opened_browser probe, Asked_input ''Enter URL after authentication: '',
        Super_fetch_token tok kw, Api_request req]"
    and k: "token self' = JObj [(''access_token'', JStr ''new''), (''refresh_token'', JStr ''r2''),
                                (''expires_at'', JNum 1700003600)]"
    by blast
  show ?thesis by (simp add: l t k refresh_calls_def)
qed

text \<open>
  C3. For every authorized session \<^verbatim>\<open>logout\<close> raises and returns no URL. Assigning
  the empty dict to \<^verbatim>\<open>token\<close> leaves the OAuth client's \<^verbatim>\<open>access_token\<close> in place,
  so \<^verbatim>\<open>_token_updater\<close> evaluates \<^verbatim>\<open>self.expired\<close> on a token without
  \<open>expires_at\<close>, and \<^verbatim>\<open>None - time()\<close> raises \<^verbatim>\<open>TypeError\<close>. The cache file is left
  as it was (no tombstone is written) and the access token is still set.
\<close>

theorem logout_raises_before_tombstone:
  "authorized self \<Longrightarrow>
   (\<exists>err. fst (logout (Suc depth) e sign_out self) = Inl err) \<and>
   cache_file (disk (snd (logout (Suc depth) e sign_out self))) = cache_file (disk self) \<and>
   access_token (snd (logout (Suc depth) e sign_out self)) = access_token self"
proof -
  assume a: "authorized self"
  show ?thesis
  proof (cases "urljoin_base (sso_base_url self) ''/oauth2/v3/logout?client_id=ownerapi''")
    case (Inl err)
    then show ?thesis using a by (simp add: logout_def)
  next
    case (Inr url)
    define self1 where "self1 = (if sign_out then self\<lparr>trace := trace self @ [Opened_browser url]\<rparr> else self)"
    define self2 where "self2 = self1\<lparr>token := JObj []\<rparr>"
    have a2: "authorized self2" "token self2 = JObj []"
      using a by (simp_all add: self2_def self1_def authorized_def)
    obtain err self3 where u: "token_updater (Suc depth) e self2 = (Inl err, self3)"
      and f: "cache_file (disk self3) = cache_file (disk self2)" "access_token self3 = access_token self2"
      using token_updater_after_clearing[OF a2, of depth e] by blast
    have "logout (Suc depth) e sign_out self = (Inl err, self3)"
      using a Inr u by (simp add: logout_def Let_def set_token_empty self1_def[symmetric] self2_def[symmetric])
    then show ?thesis using f by (simp add: self2_def self1_def)
  qed
qed

theorem logout_raises_witness:
  "fst (logout (Suc 0) (example_env (plain_response 200)) False
          (authorized_client 1700003600 (example_disk (Some (Json (cache_record 1700003600), 416)))))
     = Inl TypeError \<and>
   cache_file (disk (snd (logout (Suc 0) (example_env (plain_response 200)) False
          (authorized_client 1700003600 (example_disk (Some (Json (cache_record 1700003600), 416)))))))
     = Some (Json (cache_record 1700003600), 416) \<and>
   access_token (snd (logout (Suc 0) (example_env (plain_response 200)) False
          (authorized_client 1700003600 (example_disk (Some (Json (cache_record 1700003600), 416))))))
     = JStr ''old''"
proof -
  have a: "authorized (authorized_client 1700003600 (example_disk (Some (Json (cache_record 1700003600), 416))))"
    by (simp add: authorized_def authorized_client_def)
  from logout_raises_before_tombstone[OF a, of 0 "example_env (plain_response 200)" False] ex_logout
  show ?thesis by (simp add: authorized_client_def example_client_def example_disk_def)
qed

text \<open>
  C4. A response with status 401 whose JSON body has a \<open>response\<close> key is not
  surfaced as a failure: \<^verbatim>\<open>get\<close> and \<^verbatim>\<open>post\<close> return the value under that key
  (\<^verbatim>\<open>None\<close> here) to the caller. Neither wrapper reads the status code, and
  \<^verbatim>\<open>requests\<close> raises \<^verbatim>\<open>HTTPError\<close> only from \<^verbatim>\<open>raise_for_status\<close>, which is not
  called. One request is sent, so nothing is retried.
\<close>

theorem wrappers_return_on_401:
  "get (\<lambda>req. Inr unauthorized_response) example_object ''vehicles'' None
     = (Inr JNull,
        [\<lparr>req_method = ''GET'', req_url = ''https://owner-api.teslamotors.com/api/1/vehicles'',
          req_headers = [(''Authorization'', ''Bearer old'')], req_params = None, req_data = None\<rparr>]) \<and>
   post (\<lambda>req. Inr unauthorized_response) example_object ''wake_up'' None None
     = (Inr JNull,
        [\<lparr>req_method = ''POST'', req_url = ''https://owner-api.teslamotors.com/api/1/wake_up'',
          req_headers = [(''Authorization'', ''Bearer old'')], req_params = None, req_data = None\<rparr>]) \<and>
   status_code unauthorized_response = 401"
  by (simp add: get_def post_def example_object_def unauthorized_response_def ex_vehicles_url ex_wake_url)

text \<open>
  C6. With no cache file, no cache directory and no directory above it, the cache
  loader raises \<^verbatim>\<open>FileNotFoundError\<close> instead of returning the empty dict: the
  \<^verbatim>\<open>mkdir()\<close> in the exception handler has no \<^verbatim>\<open>parents=True\<close> and no handler of
  its own. Nothing on disk changes, so a following save finds no directory either.
\<close>

theorem load_cache_raises_without_grandparent:
  "cache_file (disk self) = None \<Longrightarrow> \<not> parent_exists (disk self) \<Longrightarrow>
   \<not> parent_parent_exists (disk self) \<Longrightarrow>
   load_cache e self = (Inl FileNotFoundError, self)"
  by (simp add: load_cache_def load_cache_try_def load_json_def)

theorem load_cache_raises_witness:
  "load_cache (example_env (plain_response 200)) (example_client missing_disk)
     = (Inl FileNotFoundError, example_client missing_disk)"
  using load_cache_raises_without_grandparent[of "example_client missing_disk" "example_env (plain_response 200)"]
  by (simp add: example_client_def missing_disk_def)

text \<open>What \<^verbatim>\<open>authorization_url\<close> has done when it returns a URL.\<close>

lemma authorization_url_flow:
  "authorization_url e auth_url_path kwargs self = (Inr (Some u), self') \<Longrightarrow>
   \<exists>url kw_plain without_hint state with_hint state' response.
     trace self' = trace self @
       [Built_authorization_url url kw_plain,
        Built_authorization_url url
          (merge (merge kw_plain ''login_hint'' (JStr (email self))) ''state'' (JStr state)),
        Session_get with_hint] \<and>
     super_authorization_url e url kw_plain = Inr (without_hint, state) \<and>
     super_authorization_url e url
        (merge (merge kw_plain ''login_hint'' (JStr (email self))) ''state'' (JStr state))
       = Inr (with_hint, state') \<and>
     session_get e with_hint = Inr response \<and>
     (if is_redirect response
      then location response = Some u \<and>
           (\<exists>b. urljoin u ''/'' = Inr b \<and> sso_base_url self' = JStr b)
      else sso_base_url self' = sso_base_url self \<and>
           u = (if ok response then with_hint else without_hint))"
  by (auto simp: authorization_url_def Let_def redirect_is_ok
           split: if_splits sum.splits prod.splits option.splits)

text \<open>
  C7, as amended. Whenever \<^verbatim>\<open>authorization_url\<close> returns a URL, it has built one URL
  without and one with the login hint and has probed the hinted one. If the response
  to the probe is a redirect, the redirect target is returned, and when the target is
  an absolute web URL without user information the SSO base URL becomes the target's
  origin. If the response is not a redirect, the SSO base URL is unchanged and the URL
  returned is the hinted URL when the response is ok (no 4xx or 5xx status), and the
  URL without the hint otherwise.
\<close>

theorem authorization_url_probe_outcome:
  "authorization_url e auth_url_path kwargs self = (Inr (Some u), self') \<Longrightarrow>
   \<exists>url kw_plain without_hint state with_hint state' response.
     trace self' = trace self @
       [Built_authorization_url url kw_plain,
        Built_authorization_url url
          (merge (merge kw_plain ''login_hint'' (JStr (email self))) ''state'' (JStr state)),
        Session_get with_hint] \<and>
     super_authorization_url e url kw_plain = Inr (without_hint, state) \<and>
     super_authorization_url e url
        (merge (merge kw_plain ''login_hint'' (JStr (email self))) ''state'' (JStr state))
       = Inr (with_hint, state') \<and>
     session_get e with_hint = Inr response \<and>
     (if is_redirect response
      then location response = Some u \<and>
           (is_web_url u \<and> \<not> has_userinfo u \<longrightarrow> sso_base_url self' = JStr (origin u))
      else sso_base_url self' = sso_base_url self \<and>
           u = (if ok response then with_hint else without_hint))"
proof -
  assume "authorization_url e auth_url_path kwargs self = (Inr (Some u), self')"
  from authorization_url_flow[OF this]
  obtain url kw_plain without_hint state with_hint state' response where
    t: "trace self' = trace self @
       [Built_authorization_url url kw_plain,
        Built_authorization_url url
          (merge (merge kw_plain ''login_hint'' (JStr (email self))) ''state'' (JStr state)),
        Session_get with_hint]"
    and p: "super_authorization_url e url kw_plain = Inr (without_hint, state)"
    and h: "super_authorization_url e url
        (merge (merge kw_plain ''login_hint'' (JStr (email self))) ''state'' (JStr state))
       = Inr (with_hint, state')"
    and g: "session_get e with_hint = Inr response"
    and r: "if is_redirect response
      then location response = Some u \<and>
           (\<exists>b. urljoin u ''/'' = Inr b \<and> sso_base_url self' = JStr b)
      else sso_base_url self' = sso_base_url self \<and>
           u = (if ok response then with_hint else without_hint)"
    by blast
  have "if is_redirect response
      then location response = Some u \<and>
           (is_web_url u \<and> \<not> has_userinfo u \<longrightarrow> sso_base_url self' = JStr (origin u))
      else sso_base_url self' = sso_base_url self \<and>
           u = (if ok response then with_hint else without_hint)"
    using r by (auto dest: urljoin_root_origin)
  then show ?thesis using t p h g by blast
qed

theorem authorization_url_redirect_witness:
  "fst (authorization_url (example_env redirect_response) ''/oauth2/v3/authorize'' []
          (example_client (example_disk None)))
     = Inr (Some ''https://auth-region2.example.com/oauth2/v3/authorize?client_id=ownerapi'') \<and>
   sso_base_url (snd (authorization_url (example_env redirect_response) ''/oauth2/v3/authorize'' []
          (example_client (example_disk None))))
     = JStr ''https://auth-region2.example.com/''"
proof -
  let ?u = "''https://auth-region2.example.com/oauth2/v3/authorize?client_id=ownerapi''"
  let ?run = "authorization_url (example_env redirect_response) ''/oauth2/v3/authorize'' []
          (example_client (example_disk None))"
  have l: "location redirect_response = Some ?u" by (simp add: redirect_response_def)
  have ret: "fst ?run = Inr (Some ?u)"
    using ex_redirect_run(1)[OF ex_redirects(1) l] by (simp add: ex_redirect_root)
  then have run: "?run = (Inr (Some ?u), snd ?run)" by (metis prod.collapse)
  have g: "session_get (example_env redirect_response) = (\<lambda>url. Inr redirect_response)"
    by (simp add: example_env_def)
  from authorization_url_probe_outcome[OF run] have "sso_base_url (snd ?run) = JStr (origin ?u)"
    unfolding g using ex_redirects(1) ex_redirect_origin(1,2) by auto
  then have "sso_base_url (snd ?run) = JStr ''https://auth-region2.example.com/''"
    by (simp add: ex_redirect_origin(3))
  then show ?thesis using ret by simp
qed

text \<open>
  The claim as it stands fails in both of its parts. Without a redirect it names one
  URL that is returned, the original one; the code returns two different ones: for a
  probe answered with status 200 the URL with the login hint, for one answered with
  status 500 the URL without it. With a redirect it has the SSO base URL become the
  origin of the target. A redirect to the relative reference
  \<^verbatim>\<open>/oauth2/v3/authorize?x=1\<close>, which HTTP allows in a \<open>Location\<close> header, leaves
  the SSO base URL \<open>/\<close>, which is the origin of nothing; a redirect to a URL with user
  information leaves an SSO base URL that still holds the user information; and for a
  redirect to a URL with a malformed host \<^verbatim>\<open>authorization_url\<close> raises
  \<^verbatim>\<open>ValueError\<close> and returns no URL.
\<close>

theorem authorization_url_outcome_counterexample:
  "\<not> is_redirect (plain_response 200) \<and> \<not> is_redirect (plain_response 500) \<and>
   fst (authorization_url (example_env (plain_response 200)) ''/oauth2/v3/authorize'' []
          (example_client (example_disk None)))
     = Inr (Some ''https://auth.tesla.com/oauth2/v3/authorize?response_type=code&client_id=ownerapi&state=Zx81&code_challenge=czJhcnQyYXJ0MmFydDJhcnQyYXJ0MmFydDJhcnQyYXI&code_challenge_method=S256&login_hint=a%40b.c'') \<and>
   fst (authorization_url (example_env (plain_response 500)) ''/oauth2/v3/authorize'' []
          (example_client (example_disk None)))
     = Inr (Some ''https://auth.tesla.com/oauth2/v3/authorize?response_type=code&client_id=ownerapi&state=Zx81&code_challenge=czJhcnQyYXJ0MmFydDJhcnQyYXJ0MmFydDJhcnQyYXI&code_challenge_method=S256'') \<and>
   fst (authorization_url (example_env (plain_response 200)) ''/oauth2/v3/authorize'' []
          (example_client (example_disk None)))
     \<noteq> fst (authorization_url (example_env (plain_response 500)) ''/oauth2/v3/authorize'' []
          (example_client (example_disk None))) \<and>
   is_redirect relative_redirect_response \<and>
   fst (authorization_url (example_env relative_redirect_response) ''/oauth2/v3/authorize'' []
          (example_client (example_disk None)))
     = Inr (Some ''/oauth2/v3/authorize?x=1'') \<and>
   sso_base_url (snd (authorization_url (example_env relative_redirect_response) ''/oauth2/v3/authorize'' []
          (example_client (example_disk None))))
     = JStr ''/'' \<and>
   \<not> is_web_url ''/'' \<and>
   is_redirect userinfo_redirect_response \<and>
   fst (authorization_url (example_env userinfo_redirect_response) ''/oauth2/v3/authorize'' []
          (example_client (example_disk None)))
     = Inr (Some ''https://user@auth-region2.example.com/oauth2/v3/authorize'') \<and>
   sso_base_url (snd (authorization_url (example_env userinfo_redirect_response) ''/oauth2/v3/authorize'' []
          (example_client (example_disk None))))
     = JStr ''https://user@auth-region2.example.com/'' \<and>
   origin ''https://user@auth-region2.example.com/oauth2/v3/authorize'' = ''https://auth-region2.example.com/'' \<and>
   is_redirect malformed_redirect_response \<and>
   fst (authorization_url (example_env malformed_redirect_response) ''/oauth2/v3/authorize'' []
          (example_client (example_disk None)))
     = Inl ValueError"
proof -
  have l: "location relative_redirect_response = Some ''/oauth2/v3/authorize?x=1''"
    "location userinfo_redirect_response = Some ''https://user@auth-region2.example.com/oauth2/v3/authorize''"
    "location malformed_redirect_response = Some ''https://[::1/x''"
    by (simp_all add: relative_redirect_response_def userinfo_redirect_response_def
          malformed_redirect_response_def)
  have plain: "\<not> is_redirect (plain_response 200)" "\<not> is_redirect (plain_response 500)"
    "ok (plain_response 200)" "\<not> ok (plain_response 500)"
    by (simp_all add: ok_def is_redirect_def plain_response_def)
  show ?thesis
    using ex_redirect_run[OF ex_redirects(2) l(1)] ex_redirect_run[OF ex_redirects(3) l(2)]
          ex_redirect_run[OF ex_redirects(4) l(3)]
    by (simp add: ex_run plain ex_redirects ex_relative_root ex_userinfo_root ex_malformed_root)
qed

text \<open>
  The loader as designed. When the \<^verbatim>\<open>try\<close> block of \<^verbatim>\<open>_load_cache\<close> fails, there is
  no cache file, and the directory above the cache directory exists, the loader
  returns the empty dict without raising, the cache directory exists afterwards, and
  a save that follows writes the file with the permission bits \<open>0o640\<close>.
\<close>

theorem load_cache_fails_soft:
  "load_cache_try e self = Inl err \<Longrightarrow> parent_parent_exists (disk self) \<Longrightarrow>
   cache_file (disk self) = None \<Longrightarrow>
   fst (load_cache e self) = Inr (JObj []) \<and>
   parent_exists (disk (snd (load_cache e self))) \<and>
   cache_file (disk (dump_cache cache (snd (load_cache e self))))
     = Some (Json cache, 416)"
  by (simp add: load_cache_def dump_cache_def open_w_def S_IWUSR_def S_IRUSR_def S_IRGRP_def)

theorem load_cache_fails_soft_witness:
  "fst (load_cache (example_env (plain_response 200))
          (example_client (missing_disk\<lparr>parent_parent_exists := True\<rparr>))) = Inr (JObj []) \<and>
   parent_exists (disk (snd (load_cache (example_env (plain_response 200))
          (example_client (missing_disk\<lparr>parent_parent_exists := True\<rparr>))))) \<and>
   cache_file (disk (dump_cache (cache_record 1700003600) (snd (load_cache (example_env (plain_response 200))
          (example_client (missing_disk\<lparr>parent_parent_exists := True\<rparr>))))))
     = Some (Json (cache_record 1700003600), 416)"
proof -
  have t: "load_cache_try (example_env (plain_response 200))
             (example_client (missing_disk\<lparr>parent_parent_exists := True\<rparr>)) = Inl FileNotFoundError"
    by (simp add: load_cache_try_def load_json_def example_client_def missing_disk_def)
  have p: "parent_parent_exists (disk (example_client (missing_disk\<lparr>parent_parent_exists := True\<rparr>)))"
    by (simp add: example_client_def)
  have n: "cache_file (disk (example_client (missing_disk\<lparr>parent_parent_exists := True\<rparr>))) = None"
    by (simp add: example_client_def missing_disk_def)
  from load_cache_fails_soft[OF t p n] show ?thesis by simp
qed

end
